theory Spec2Isabelle
  imports Complex_Main "HOL-Library.AList" "HOL-Library.Signed_Division"
    "HOL-Library.Monad_Syntax"
begin

section \<open>The Go \<open>time\<close> package, as far as \<open>stats.go\<close> uses it\<close>

text \<open>
  An instant is the number of nanoseconds since 0001-01-01 00:00:00, the zero value of
  Go's \<open>time.Time\<close>. The local zone is taken to be a fixed zone without offset, so the
  civil fields of an instant are functions of that number alone; daylight-saving changes
  are outside the model. Instants are unbounded integers. A \<open>time.Duration\<close> is a signed
  64-bit count of nanoseconds, and \<open>Sub\<close> saturates at its bounds as Go's does.
  \<open>float64\<close> values are modelled by exact reals.
\<close>

type_synonym Time = int
type_synonym Duration = int

definition Second :: Duration where "Second = 1000000000"
definition Minute :: Duration where "Minute = 60 * Second"
definition Hour :: Duration where "Hour = 60 * Minute"

definition nsPerDay :: int where "nsPerDay = 24 * Hour"

definition minDuration :: Duration where "minDuration = - (2 ^ 63)"
definition maxDuration :: Duration where "maxDuration = 2 ^ 63 - 1"

definition zeroTime :: Time where "zeroTime = 0"

definition IsZero :: "Time \<Rightarrow> bool" where
  "IsZero t = (t = 0)"

definition After :: "Time \<Rightarrow> Time \<Rightarrow> bool" where
  "After t u = (u < t)"

definition Before :: "Time \<Rightarrow> Time \<Rightarrow> bool" where
  "Before t u = (t < u)"

definition Add :: "Time \<Rightarrow> Duration \<Rightarrow> Time" where
  "Add t d = t + d"

definition Sub :: "Time \<Rightarrow> Time \<Rightarrow> Duration" where
  "Sub t u = (if t - u < minDuration then minDuration
              else if maxDuration < t - u then maxDuration
              else t - u)"

definition Seconds :: "Duration \<Rightarrow> real" where
  "Seconds d = real_of_int d / 1000000000"

definition Hours :: "Duration \<Rightarrow> real" where
  "Hours d = real_of_int d / 3600000000000"

text \<open>\<open>math.Round\<close>: to the nearest integer, halves away from zero.\<close>

definition mathRound :: "real \<Rightarrow> int" where
  "mathRound x = (if 0 \<le> x then \<lfloor>x + 1 / 2\<rfloor> else \<lceil>x - 1 / 2\<rceil>)"

text \<open>The conversion \<open>int(x)\<close> of a float: truncation towards zero.\<close>

definition truncFloat :: "real \<Rightarrow> int" where
  "truncFloat x = (if 0 \<le> x then \<lfloor>x\<rfloor> else \<lceil>x\<rceil>)"

subsection \<open>Civil dates\<close>

definition isLeap :: "int \<Rightarrow> bool" where
  "isLeap year = (year mod 4 = 0 \<and> (year mod 100 \<noteq> 0 \<or> year mod 400 = 0))"

definition daysBefore :: "int list" where
  "daysBefore = [0, 31, 59, 90, 120, 151, 181, 212, 243, 273, 304, 334, 365]"

text \<open>
  \<open>absDate\<close>, first half: the year of a day number and the day within that year, by
  cutting off cycles of 400, 100, 4 and 1 years. Day 0 is 0001-01-01.
\<close>

definition yearOfDays :: "int \<Rightarrow> int \<times> int" where
  "yearOfDays d =
     (let n400 = d div 146097;
          d1 = d - 146097 * n400;
          n100 = d1 div 36524;
          n100' = n100 - n100 div 4;
          d2 = d1 - 36524 * n100';
          n4 = d2 div 1461;
          d3 = d2 - 1461 * n4;
          n1 = d3 div 365;
          n1' = n1 - n1 div 4;
          yday = d3 - 365 * n1'
      in (400 * n400 + 100 * n100' + 4 * n4 + n1' + 1, yday))"

text \<open>
  \<open>absDate\<close>, second half: month (1 to 12) and day of the month from the day of the
  year, estimating the month on the assumption that every month has 31 days.
\<close>

definition monthDayOfYday :: "bool \<Rightarrow> int \<Rightarrow> int \<times> int" where
  "monthDayOfYday leap yday =
     (if leap \<and> yday = 31 + 29 - 1 then (2, 29)
      else
        let day = (if leap \<and> yday > 31 + 29 - 1 then yday - 1 else yday);
            month = day div 31;
            end = daysBefore ! nat (month + 1)
        in if day \<ge> end then (month + 2, day - end + 1)
           else (month + 1, day - daysBefore ! nat month + 1))"

definition absDays :: "Time \<Rightarrow> int" where
  "absDays t = t div nsPerDay"

definition tYear :: "Time \<Rightarrow> int" where
  "tYear t = fst (yearOfDays (absDays t))"

definition tYearDay :: "Time \<Rightarrow> int" where
  "tYearDay t = snd (yearOfDays (absDays t))"

definition tMonth :: "Time \<Rightarrow> int" where
  "tMonth t = fst (monthDayOfYday (isLeap (tYear t)) (tYearDay t))"

definition tDay :: "Time \<Rightarrow> int" where
  "tDay t = snd (monthDayOfYday (isLeap (tYear t)) (tYearDay t))"

definition tHour :: "Time \<Rightarrow> int" where
  "tHour t = (t mod nsPerDay) div Hour"

definition tMinute :: "Time \<Rightarrow> int" where
  "tMinute t = (t mod Hour) div Minute"

definition tSecond :: "Time \<Rightarrow> int" where
  "tSecond t = (t mod Minute) div Second"

definition tNanosecond :: "Time \<Rightarrow> int" where
  "tNanosecond t = t mod Second"

text \<open>Sunday is 0; 0001-01-01 was a Monday.\<close>

definition tWeekday :: "Time \<Rightarrow> int" where
  "tWeekday t = (absDays t + 1) mod 7"

text \<open>
  \<open>daysSinceEpoch\<close> and \<open>time.Date\<close>. The month is normalised into the year; day, hour,
  minute, second and nanosecond may lie outside their usual ranges and carry over, which
  on a linear count of nanoseconds is the sum below.
\<close>

definition daysSinceEpoch :: "int \<Rightarrow> int" where
  "daysSinceEpoch year =
     (let y = year - 1;
          n400 = y div 400;
          y1 = y - 400 * n400;
          n100 = y1 div 100;
          y2 = y1 - 100 * n100;
          n4 = y2 div 4;
          y3 = y2 - 4 * n4
      in 146097 * n400 + 36524 * n100 + 1461 * n4 + 365 * y3)"

definition tDate :: "int \<Rightarrow> int \<Rightarrow> int \<Rightarrow> int \<Rightarrow> int \<Rightarrow> int \<Rightarrow> int \<Rightarrow> Time" where
  "tDate year month day hour minute sec nsec =
     (let m = month - 1;
          year' = year + m div 12;
          month' = m mod 12 + 1;
          d = daysSinceEpoch year' + daysBefore ! nat (month' - 1)
              + (if isLeap year' \<and> month' \<ge> 3 then 1 else 0)
              + (day - 1)
      in d * nsPerDay + hour * Hour + minute * Minute + sec * Second + nsec)"

definition AddDate :: "Time \<Rightarrow> int \<Rightarrow> int \<Rightarrow> int \<Rightarrow> Time" where
  "AddDate t years months days =
     tDate (tYear t + years) (tMonth t + months) (tDay t + days)
           (tHour t) (tMinute t) (tSecond t) (tNanosecond t)"

subsection \<open>Formatting\<close>

definition longMonthNames :: "string list" where
  "longMonthNames = [''January'', ''February'', ''March'', ''April'', ''May'', ''June'',
     ''July'', ''August'', ''September'', ''October'', ''November'', ''December'']"

definition digitChar :: "nat \<Rightarrow> char" where
  "digitChar n = char_of (48 + n mod 10)"

function decimal :: "nat \<Rightarrow> string" where
  "decimal n = (if n < 10 then [digitChar n] else decimal (n div 10) @ [digitChar n])"
  by pat_completeness auto
termination
  by (relation "measure id") auto

declare decimal.simps [simp del]

text \<open>\<open>appendInt\<close>: a sign for negative values, then the digits, zero-padded to the width.\<close>

definition appendInt :: "int \<Rightarrow> nat \<Rightarrow> string" where
  "appendInt x width =
     (let ds = decimal (nat \<bar>x\<bar>)
      in (if x < 0 then ''-'' else []) @ replicate (width - length ds) (CHR ''0'') @ ds)"

text \<open>
  \<open>Format\<close>, for layouts made of the chunks \<open>January\<close>, \<open>02\<close> and \<open>2006\<close> and literal text,
  which covers the three history key formats of \<open>initData\<close>. Other layout chunks of Go
  are not modelled.
\<close>

fun Format :: "string \<Rightarrow> Time \<Rightarrow> string" where
  "Format [] t = []"
| "Format (c # cs) t =
     (if take 7 (c # cs) = ''January''
        then longMonthNames ! nat (tMonth t - 1) @ Format (drop 6 cs) t
      else if take 4 (c # cs) = ''2006''
        then appendInt (tYear t) 4 @ Format (drop 3 cs) t
      else if take 2 (c # cs) = ''02''
        then appendInt (tDay t) 2 @ Format (drop 1 cs) t
      else c # Format cs t)"

section \<open>Data model\<close>

definition hoursInADay :: int where "hoursInADay = 24"
definition maxHoursInAMonth :: int where "maxHoursInAMonth = 744"
definition maxHoursInAYear :: int where "maxHoursInAYear = 8784"
definition minutesInAnHour :: int where "minutesInAnHour = 60"

record quantity =
  minutes :: int
  completed :: int
  abandoned :: int

definition zeroQuantity :: quantity where
  "zeroQuantity = \<lparr>minutes = 0, completed = 0, abandoned = 0\<rparr>"

text \<open>
  \<open>Data\<close>. \<open>initData\<close> creates every weekday and hour key, and the keys looked up are
  results of \<open>Weekday()\<close> and \<open>Hour()\<close>, so these two maps are total functions here.
  \<open>History\<close> is an association list with distinct keys: presence of a key matters, and
  the sum over its entries is computable.
\<close>

record Data =
  Weekday :: "int \<Rightarrow> quantity"
  HourofDay :: "int \<Rightarrow> quantity"
  History :: "(string \<times> quantity) list"
  HistoryKeyFormat :: string
  Totals :: quantity
  Averages :: quantity

text \<open>
  The loop of \<open>initData\<close> over the days from \<open>start\<close> to \<open>end\<close>, in steps of 24 hours;
  each step stores a fresh zero quantity under the day's label.
\<close>

function populateHistory ::
  "string \<Rightarrow> Time \<Rightarrow> Time \<Rightarrow> (string \<times> quantity) list \<Rightarrow> (string \<times> quantity) list" where
  "populateHistory layout date end h =
     (if After date end then h
      else populateHistory layout (Add date (hoursInADay * Hour)) end
             (AList.update (Format layout date) zeroQuantity h))"
  by pat_completeness auto
termination
  by (relation "measure (\<lambda>(layout, date, end, h). nat (end - date + 1))")
     (auto simp: After_def Add_def hoursInADay_def Hour_def Minute_def Second_def)

declare populateHistory.simps [simp del]

definition initData :: "Time \<Rightarrow> Time \<Rightarrow> int \<Rightarrow> Data" where
  "initData start end hoursDiff =
     (let fmt = (if hoursDiff > hoursInADay \<and> hoursDiff \<le> maxHoursInAMonth
                   then ''January 02, 2006''
                 else if hoursDiff > maxHoursInAYear then ''2006''
                 else ''January 2006'')
      in \<lparr>Weekday = (\<lambda>_. zeroQuantity),
          HourofDay = (\<lambda>_. zeroQuantity),
          History = populateHistory fmt start end [],
          HistoryKeyFormat = fmt,
          Totals = zeroQuantity,
          Averages = zeroQuantity\<rparr>)"

text \<open>\<open>roundTime\<close> rounds a time value to the nearest integer.\<close>

definition roundTime :: "real \<Rightarrow> int" where
  "roundTime t = mathRound t"

text \<open>
  Modelled from the spec: the \<open>session\<close> type is declared in a file of the package that
  is not part of the sources at hand. Its fields are those \<open>stats.go\<close> reads: start and end
  instants (a zero end meaning "in progress"), the completed flag, and the timeline of
  sub-intervals during which the session was running.
\<close>

record timelineEntry =
  tlStartTime :: Time
  tlEndTime :: Time

record session =
  StartTime :: Time
  EndTime :: Time
  Completed :: bool
  Timeline :: "timelineEntry list"

section \<open>calculateSessionDuration\<close>

text \<open>
  The local variables of \<open>calculateSessionDuration\<close>: the three maps of seconds, the
  running total and the per-sub-interval flag. The maps are association lists; a key is
  present from the first minute-step that touches it.
\<close>

record walkState =
  hourly :: "(int \<times> real) list"
  weekday :: "(int \<times> real) list"
  daily :: "(string \<times> real) list"
  seconds :: real
  durationAdded :: bool

definition addSecs :: "'k \<Rightarrow> real \<Rightarrow> ('k \<times> real) list \<Rightarrow> ('k \<times> real) list" where
  "addSecs k secs m = AList.map_default k secs (\<lambda>x. x + secs) m"

text \<open>The body of the inner loop, for the minute-step at instant \<open>date\<close>.\<close>

definition minuteStep ::
  "string \<Rightarrow> Time \<Rightarrow> Time \<Rightarrow> Time \<Rightarrow> Time \<Rightarrow> walkState \<Rightarrow> walkState" where
  "minuteStep layout statsStart statsEnd vEnd date w =
     (if Before date statsStart \<or> After date statsEnd then w
      else
        let end = (if After (Add date (1 * Minute)) vEnd then vEnd
                   else Add date (1 * Minute));
            secs = Seconds (Sub end date)
        in w\<lparr>hourly := addSecs (tHour date) secs (hourly w),
             weekday := addSecs (tWeekday date) secs (weekday w),
             daily := addSecs (Format layout date) secs (daily w),
             seconds := (if durationAdded w then seconds w
                         else seconds w + Seconds (Sub vEnd date)),
             durationAdded := True\<rparr>)"

text \<open>The inner loop: from \<open>date\<close> in steps of one minute while \<open>date\<close> is not after \<open>vEnd\<close>.\<close>

function walk ::
  "string \<Rightarrow> Time \<Rightarrow> Time \<Rightarrow> Time \<Rightarrow> Time \<Rightarrow> walkState \<Rightarrow> walkState" where
  "walk layout statsStart statsEnd vEnd date w =
     (if After date vEnd then w
      else walk layout statsStart statsEnd vEnd (Add date (1 * Minute))
             (minuteStep layout statsStart statsEnd vEnd date w))"
  by pat_completeness auto
termination
  by (relation "measure (\<lambda>(layout, statsStart, statsEnd, vEnd, date, w). nat (vEnd - date + 1))")
     (simp_all add: After_def Add_def Minute_def Second_def)

declare walk.simps [simp del]

text \<open>The outer loop over the timeline; the flag starts false for every sub-interval.\<close>

primrec walkTimeline ::
  "string \<Rightarrow> Time \<Rightarrow> Time \<Rightarrow> timelineEntry list \<Rightarrow> walkState \<Rightarrow> walkState" where
  "walkTimeline layout statsStart statsEnd [] w = w"
| "walkTimeline layout statsStart statsEnd (v # vs) w =
     walkTimeline layout statsStart statsEnd vs
       (walk layout statsStart statsEnd (tlEndTime v) (tlStartTime v)
          (w\<lparr>durationAdded := False\<rparr>))"

definition addMinutes :: "real \<Rightarrow> quantity \<Rightarrow> quantity" where
  "addMinutes val q = q\<lparr>minutes := minutes q + roundTime (val / real_of_int minutesInAnHour)\<rparr>"

text \<open>
  The three loops that move the seconds into \<open>Data\<close>. Go visits the entries of a map in
  no fixed order; the entries have distinct keys and each update touches its own key
  only, so the order of the list stands for any of them. A label that is not a key of
  \<open>History\<close> is dropped.
\<close>

primrec addWeekday :: "(int \<times> real) list \<Rightarrow> (int \<Rightarrow> quantity) \<Rightarrow> (int \<Rightarrow> quantity)" where
  "addWeekday [] m = m"
| "addWeekday (kv # kvs) m =
     addWeekday kvs (m(fst kv := addMinutes (snd kv) (m (fst kv))))"

primrec addHourly :: "(int \<times> real) list \<Rightarrow> (int \<Rightarrow> quantity) \<Rightarrow> (int \<Rightarrow> quantity)" where
  "addHourly [] m = m"
| "addHourly (kv # kvs) m =
     addHourly kvs (m(fst kv := addMinutes (snd kv) (m (fst kv))))"

primrec addDaily ::
  "(string \<times> real) list \<Rightarrow> (string \<times> quantity) list \<Rightarrow> (string \<times> quantity) list" where
  "addDaily [] h = h"
| "addDaily (kv # kvs) h =
     addDaily kvs (AList.map_entry (fst kv) (addMinutes (snd kv)) h)"

definition emptyWalk :: walkState where
  "emptyWalk = \<lparr>hourly = [], weekday = [], daily = [], seconds = 0, durationAdded = False\<rparr>"

definition calculateSessionDuration ::
  "Data \<Rightarrow> session \<Rightarrow> Time \<Rightarrow> Time \<Rightarrow> real \<times> Data" where
  "calculateSessionDuration d s statsStart statsEnd =
     (let w = walkTimeline (HistoryKeyFormat d) statsStart statsEnd (Timeline s) emptyWalk
      in (seconds w,
          d\<lparr>Weekday := addWeekday (weekday w) (Weekday d),
            HourofDay := addHourly (hourly w) (HourofDay d),
            History := addDaily (daily w) (History d)\<rparr>))"

section \<open>computeTotals and computeAverages\<close>

definition incCompleted :: "quantity \<Rightarrow> quantity" where
  "incCompleted q = q\<lparr>completed := completed q + 1\<rparr>"

definition incAbandoned :: "quantity \<Rightarrow> quantity" where
  "incAbandoned q = q\<lparr>abandoned := abandoned q + 1\<rparr>"

text \<open>The body of the loop of \<open>computeTotals\<close> for a session with a non-zero end.\<close>

definition countSession :: "session \<Rightarrow> Time \<Rightarrow> Time \<Rightarrow> Data \<Rightarrow> Data" where
  "countSession s startTime endTime d =
     (let (secs, d1) = calculateSessionDuration d s startTime endTime;
          duration = roundTime (secs / real_of_int minutesInAnHour);
          wd = tWeekday (StartTime s);
          hr = tHour (StartTime s);
          key = Format (HistoryKeyFormat d1) (StartTime s)
      in if Completed s
         then d1\<lparr>Weekday := (Weekday d1)(wd := incCompleted (Weekday d1 wd)),
                HourofDay := (HourofDay d1)(hr := incCompleted (HourofDay d1 hr)),
                History := AList.map_entry key incCompleted (History d1),
                Totals := (Totals d1)\<lparr>completed := completed (Totals d1) + 1,
                                         minutes := minutes (Totals d1) + duration\<rparr>\<rparr>
         else d1\<lparr>Weekday := (Weekday d1)(wd := incAbandoned (Weekday d1 wd)),
                HourofDay := (HourofDay d1)(hr := incAbandoned (HourofDay d1 hr)),
                History := AList.map_entry key incAbandoned (History d1),
                Totals := (Totals d1)\<lparr>abandoned := abandoned (Totals d1) + 1,
                                         minutes := minutes (Totals d1) + duration\<rparr>\<rparr>)"

primrec computeTotals :: "session list \<Rightarrow> Time \<Rightarrow> Time \<Rightarrow> Data \<Rightarrow> Data" where
  "computeTotals [] startTime endTime d = d"
| "computeTotals (s # ss) startTime endTime d =
     (if IsZero (EndTime s) then computeTotals ss startTime endTime d
      else computeTotals ss startTime endTime (countSession s startTime endTime d))"

text \<open>
  \<open>computeAverages\<close>. The division of the hours by 24 is Go's integer division, which
  truncates towards zero. With \<open>numberOfDays = 0\<close> the three quotients are infinite or
  not a number, and Go leaves their conversion to \<open>int\<close> to the implementation: that
  case is \<open>None\<close>.
\<close>

definition computeAverages :: "Data \<Rightarrow> Time \<Rightarrow> Time \<Rightarrow> Data option" where
  "computeAverages d start end =
     (let end' = tDate (tYear end) (tMonth end) (tDay end) 23 59 59 0;
          hoursDiff = roundTime (Hours (Sub end' start));
          numberOfDays = hoursDiff sdiv 24
      in if numberOfDays = 0 then None
         else Some (d\<lparr>Averages := (Averages d)
               \<lparr>minutes := roundTime (real_of_int (minutes (Totals d)) / real_of_int numberOfDays),
                completed := roundTime (real_of_int (completed (Totals d)) / real_of_int numberOfDays),
                abandoned := roundTime (real_of_int (abandoned (Totals d)) / real_of_int numberOfDays)\<rparr>\<rparr>))"

definition compute :: "session list \<Rightarrow> Time \<Rightarrow> Time \<Rightarrow> Data \<Rightarrow> Data option" where
  "compute sessions startTime endTime d =
     computeAverages (computeTotals sessions startTime endTime d) startTime endTime"

section \<open>getPeriod\<close>

text \<open>\<open>time.Now()\<close> is the parameter \<open>now\<close>; the named results start at the zero instant.\<close>

definition getPeriod :: "string \<Rightarrow> Time \<Rightarrow> Time \<times> Time" where
  "getPeriod period now =
     (let end = tDate (tYear now) (tMonth now) (tDay now) 23 59 59 0;
          midnight = (\<lambda>start. tDate (tYear start) (tMonth start) (tDay start) 0 0 0 0)
      in if period = ''today'' then (midnight now, end)
         else if period = ''yesterday'' then
           (let start = AddDate now 0 0 (- 1)
            in (midnight start, tDate (tYear start) (tMonth start) (tDay start) 23 59 59 0))
         else if period = ''7days'' then (midnight (AddDate now 0 0 (- 6)), end)
         else if period = ''14days'' then (midnight (AddDate now 0 0 (- 13)), end)
         else if period = ''30days'' then (midnight (AddDate now 0 0 (- 29)), end)
         else if period = ''90days'' then (midnight (AddDate now 0 0 (- 89)), end)
         else if period = ''180days'' then (midnight (AddDate now 0 0 (- 179)), end)
         else if period = ''365days'' then (midnight (AddDate now 0 0 (- 364)), end)
         else if period = ''all-time'' then (zeroTime, end)
         else (zeroTime, end))"

section \<open>Stats: Show and NewStats\<close>

datatype error =
  errParsingDate
| errInvalidDateRange
| errPeriod
| errStore
| errAveragesUndefined

record Stats =
  statsStartTime :: Time
  statsEndTime :: Time
  Sessions :: "session list"
  statsData :: "Data option"
  HoursDiff :: int

text \<open>
  \<open>Show\<close> up to and including \<open>compute\<close>; the rendering that follows reads the result and
  is left out. The answer of the store, already decoded, is the parameter \<open>fetched\<close>.
  Where \<open>computeAverages\<close> has no defined result, the model stops with
  \<open>errAveragesUndefined\<close>.
\<close>

definition Show :: "error + session list \<Rightarrow> Stats \<Rightarrow> error + Stats" where
  "Show fetched s =
     (case fetched of
        Inl e \<Rightarrow> Inl e
      | Inr b \<Rightarrow>
          let s1 = s\<lparr>Sessions := Sessions s @ b\<rparr>;
              s2 = (if IsZero (statsStartTime s1) \<and> length (Sessions s1) > 0
                    then let fs = StartTime (hd (Sessions s1))
                         in s1\<lparr>statsStartTime := tDate (tYear fs) (tMonth fs) (tDay fs) 0 0 0 0\<rparr>
                    else s1);
              diff = Sub (statsEndTime s2) (statsStartTime s2);
              s3 = s2\<lparr>HoursDiff := truncFloat (Hours diff)\<rparr>;
              d = initData (statsStartTime s3) (statsEndTime s3) (HoursDiff s3)
          in case compute (Sessions s3) (statsStartTime s3) (statsEndTime s3) d of
               None \<Rightarrow> Inl errAveragesUndefined
             | Some d' \<Rightarrow> Inr (s3\<lparr>statsData := Some d'\<rparr>))"

text \<open>The hours that \<open>displayAverages\<close> compares with \<open>hoursInADay\<close>.\<close>

definition displayAveragesHoursDiff :: "Stats \<Rightarrow> int" where
  "displayAveragesHoursDiff s = roundTime (Hours (Sub (statsEndTime s) (statsStartTime s)))"

subsection \<open>\<open>time.Parse\<close> with the layout \<open>2006-1-2 3:4:5 PM\<close>\<close>

definition isDigitChar :: "char \<Rightarrow> bool" where
  "isDigitChar c = (48 \<le> (of_char c :: nat) \<and> (of_char c :: nat) \<le> 57)"

definition isDigit :: "string \<Rightarrow> nat \<Rightarrow> bool" where
  "isDigit s i = (i < length s \<and> isDigitChar (s ! i))"

definition digitVal :: "char \<Rightarrow> int" where
  "digitVal c = int (of_char c) - 48"

definition getnum :: "string \<Rightarrow> bool \<Rightarrow> (int \<times> string) option" where
  "getnum s fixed =
     (if \<not> isDigit s 0 then None
      else if \<not> isDigit s 1 then (if fixed then None else Some (digitVal (s ! 0), drop 1 s))
      else Some (digitVal (s ! 0) * 10 + digitVal (s ! 1), drop 2 s))"

definition cutspace :: "string \<Rightarrow> string" where
  "cutspace s = dropWhile (\<lambda>c. c = CHR '' '') s"

text \<open>
  \<open>skip\<close> removes the layout's literal text from the front of the value; a space of
  the layout stands for any run of spaces of the value, the empty one included.
\<close>

function skip :: "string \<Rightarrow> string \<Rightarrow> string option" where
  "skip val prefix =
     (if prefix = [] then Some val
      else if hd prefix = CHR '' '' then
        (if length val > 0 \<and> hd val \<noteq> CHR '' '' then None
         else skip (cutspace val) (cutspace prefix))
      else if length val = 0 \<or> hd val \<noteq> hd prefix then None
      else skip (tl val) (tl prefix))"
  by pat_completeness auto
termination
proof (relation "measure (\<lambda>(val, prefix). length prefix)")
  show "wf (measure (\<lambda>(val, prefix). length prefix))"
    by simp
next
  fix val prefix :: string
  assume "prefix \<noteq> []" and "hd prefix = CHR '' ''"
  then have "length (dropWhile (\<lambda>c. c = CHR '' '') prefix) < length prefix"
    by (cases prefix) (simp_all add: less_Suc_eq_le length_dropWhile_le)
  then show "((cutspace val, cutspace prefix), (val, prefix))
             \<in> measure (\<lambda>(val, prefix). length prefix)"
    by (simp add: cutspace_def)
next
  fix val prefix :: string
  assume "prefix \<noteq> []"
  then show "((tl val, tl prefix), (val, prefix)) \<in> measure (\<lambda>(val, prefix). length prefix)"
    by (cases prefix) simp_all
qed

declare skip.simps [simp del]

definition daysIn :: "int \<Rightarrow> int \<Rightarrow> int" where
  "daysIn month year =
     (if month = 2 \<and> isLeap year then 29
      else daysBefore ! nat month - daysBefore ! nat (month - 1))"

text \<open>
  The seven chunks of the layout in turn: four digits of year, then month, day, hour,
  minute and second of one or two digits each, then \<open>AM\<close> or \<open>PM\<close>. A fraction of a
  second after the seconds is accepted although the layout has none. Nothing may
  follow. Every failure of Go's parser is \<open>None\<close>.
\<close>

definition Parse :: "string \<Rightarrow> Time option" where
  "Parse val0 =
     do {
       (year, v1) \<leftarrow>
         (if length val0 < 4 \<or> \<not> isDigit val0 0 \<or> \<not> list_all isDigitChar (take 4 val0)
          then None
          else Some (foldl (\<lambda>a c. a * 10 + digitVal c) 0 (take 4 val0), drop 4 val0));
       v2 \<leftarrow> skip v1 ''-'';
       (month, v3) \<leftarrow> getnum v2 False;
       _ \<leftarrow> (if month \<le> 0 \<or> 12 < month then None else Some ());
       v4 \<leftarrow> skip v3 ''-'';
       (day, v5) \<leftarrow> getnum v4 False;
       v6 \<leftarrow> skip v5 '' '';
       (hour, v7) \<leftarrow> getnum v6 False;
       _ \<leftarrow> (if hour < 0 \<or> 12 < hour then None else Some ());
       v8 \<leftarrow> skip v7 '':'';
       (minute, v9) \<leftarrow> getnum v8 False;
       _ \<leftarrow> (if minute < 0 \<or> 60 \<le> minute then None else Some ());
       v10 \<leftarrow> skip v9 '':'';
       (sec, v11) \<leftarrow> getnum v10 False;
       _ \<leftarrow> (if sec < 0 \<or> 60 \<le> sec then None else Some ());
       (nsec, v12) \<leftarrow>
         (if length v11 \<ge> 2 \<and> (hd v11 = CHR ''.'' \<or> hd v11 = CHR '','') \<and> isDigit v11 1
          then let ds = takeWhile isDigitChar (tl v11);
                   ds9 = take 9 (ds @ replicate 9 (CHR ''0''))
               in Some (foldl (\<lambda>a c. a * 10 + digitVal c) 0 ds9, dropWhile isDigitChar (tl v11))
          else Some (0, v11));
       v13 \<leftarrow> skip v12 '' '';
       (pm, v14) \<leftarrow>
         (if length v13 < 2 then None
          else if take 2 v13 = ''PM'' then Some (True, drop 2 v13)
          else if take 2 v13 = ''AM'' then Some (False, drop 2 v13)
          else None);
       _ \<leftarrow> (if length v14 \<noteq> 0 then None else Some ());
       let hour' = (if pm \<and> hour < 12 then hour + 12
                    else if \<not> pm \<and> hour = 12 then 0 else hour);
       _ \<leftarrow> (if day < 1 \<or> day > daysIn month year then None else Some ());
       Some (tDate year month day hour' minute sec nsec)
     }"

subsection \<open>NewStats\<close>

definition statsPeriod :: "string list" where
  "statsPeriod = [''all-time'', ''today'', ''yesterday'', ''7days'', ''14days'', ''30days'',
     ''90days'', ''180days'', ''365days'']"

primrec contains :: "string list \<Rightarrow> string \<Rightarrow> bool" where
  "contains [] e = False"
| "contains (a # s) e = (if a = e then True else contains s e)"

text \<open>
  \<open>strings.TrimSpace\<close> removes the white space of Unicode from both ends. A Go string is
  a sequence of bytes in UTF-8, so the white space characters are the byte sequences
  below: the six ASCII ones, then U+0085, U+00A0, U+1680, U+2000 to U+200A, U+2028,
  U+2029, U+202F, U+205F and U+3000. A byte that does not begin or end one of them
  stops the trimming, as a character that is not white space or an invalid byte does.
\<close>

definition spaceRunes :: "string list" where
  "spaceRunes =
     [[CHR 0x09], [CHR 0x0A], [CHR 0x0B], [CHR 0x0C], [CHR 0x0D], [CHR 0x20],
      [CHR 0xC2, CHR 0x85], [CHR 0xC2, CHR 0xA0],
      [CHR 0xE1, CHR 0x9A, CHR 0x80],
      [CHR 0xE2, CHR 0x80, CHR 0x80], [CHR 0xE2, CHR 0x80, CHR 0x81],
      [CHR 0xE2, CHR 0x80, CHR 0x82], [CHR 0xE2, CHR 0x80, CHR 0x83],
      [CHR 0xE2, CHR 0x80, CHR 0x84], [CHR 0xE2, CHR 0x80, CHR 0x85],
      [CHR 0xE2, CHR 0x80, CHR 0x86], [CHR 0xE2, CHR 0x80, CHR 0x87],
      [CHR 0xE2, CHR 0x80, CHR 0x88], [CHR 0xE2, CHR 0x80, CHR 0x89],
      [CHR 0xE2, CHR 0x80, CHR 0x8A],
      [CHR 0xE2, CHR 0x80, CHR 0xA8], [CHR 0xE2, CHR 0x80, CHR 0xA9],
      [CHR 0xE2, CHR 0x80, CHR 0xAF],
      [CHR 0xE2, CHR 0x81, CHR 0x9F],
      [CHR 0xE3, CHR 0x80, CHR 0x80]]"

definition leadingSpace :: "string \<Rightarrow> string option" where
  "leadingSpace s = find (\<lambda>r. take (length r) s = r) spaceRunes"

definition trailingSpace :: "string \<Rightarrow> string option" where
  "trailingSpace s = find (\<lambda>r. take (length r) (rev s) = rev r) spaceRunes"

function trimLeft :: "string \<Rightarrow> string" where
  "trimLeft s =
     (case leadingSpace s of None \<Rightarrow> s | Some r \<Rightarrow> trimLeft (drop (length r) s))"
  by pat_completeness auto
termination
proof (relation "measure length")
  show "wf (measure length)"
    by simp
next
  fix s r :: string
  assume "leadingSpace s = Some r"
  then have "r \<in> set spaceRunes" and "take (length r) s = r"
    by (auto simp: leadingSpace_def find_Some_iff)
  then have "r \<noteq> []" and "s \<noteq> []"
    by (auto simp: spaceRunes_def)
  then show "(drop (length r) s, s) \<in> measure length"
    by (cases s; cases r) simp_all
qed

declare trimLeft.simps [simp del]

function trimRight :: "string \<Rightarrow> string" where
  "trimRight s =
     (case trailingSpace s of None \<Rightarrow> s
      | Some r \<Rightarrow> trimRight (take (length s - length r) s))"
  by pat_completeness auto
termination
proof (relation "measure length")
  show "wf (measure length)"
    by simp
next
  fix s r :: string
  assume "trailingSpace s = Some r"
  then have "r \<in> set spaceRunes" and "take (length r) (rev s) = rev r"
    by (auto simp: trailingSpace_def find_Some_iff)
  then have "r \<noteq> []" and "s \<noteq> []"
    by (auto simp: spaceRunes_def)
  then show "(take (length s - length r) s, s) \<in> measure length"
    by (cases r) simp_all
qed

declare trimRight.simps [simp del]

definition TrimSpace :: "string \<Rightarrow> string" where
  "TrimSpace s = trimRight (trimLeft s)"

definition timeFormatLength :: nat where "timeFormatLength = 10"

text \<open>
  The handling of one of the options \<open>start\<close> and \<open>end\<close>, already trimmed and not empty:
  a string of ten characters gets the time of day appended, then the layout decides.
  The instant is built again from its civil fields with zero nanoseconds.
\<close>

definition parseOption :: "string \<Rightarrow> string \<Rightarrow> error + Time" where
  "parseOption suffix opt =
     (let opt' = (if length opt = timeFormatLength then opt @ suffix else opt)
      in case Parse opt' of
           None \<Rightarrow> Inl errParsingDate
         | Some v \<Rightarrow> Inr (tDate (tYear v) (tMonth v) (tDay v) (tHour v) (tMinute v) (tSecond v) 0))"

text \<open>
  \<open>NewStats\<close>: the three options of the command line and the current instant are the
  parameters; the result is the pair of \<open>StartTime\<close> and \<open>EndTime\<close> of the new \<open>Stats\<close>.
\<close>

definition NewStats :: "string \<Rightarrow> string \<Rightarrow> string \<Rightarrow> Time \<Rightarrow> error + Time \<times> Time" where
  "NewStats period startOpt endOpt now =
     (if period \<noteq> [] \<and> \<not> contains statsPeriod period then Inl errPeriod
      else
        let (startTime, endTime) = getPeriod period now;
            start = TrimSpace startOpt;
            end = TrimSpace endOpt
        in case (if start \<noteq> [] then parseOption '' 12:00:00 AM'' start else Inr startTime) of
             Inl e \<Rightarrow> Inl e
           | Inr startTime' \<Rightarrow>
               (case (if end \<noteq> [] then parseOption '' 11:59:59 PM'' end else Inr endTime) of
                  Inl e \<Rightarrow> Inl e
                | Inr endTime' \<Rightarrow>
                    if truncFloat (Seconds (Sub endTime' startTime')) < 0
                    then Inl errInvalidDateRange
                    else Inr (startTime', endTime')))"

section \<open>Sums over the history\<close>


section \<open>Auxiliary definitions for the statements\<close>

text \<open>
  What month and day of a day of the year have to satisfy: a month from 1 to 12, a day
  from 1 to 31, and the day of the year recovered the way \<open>tDate\<close> counts it.
\<close>

definition monthDayOk :: "bool \<Rightarrow> int \<Rightarrow> bool" where
  "monthDayOk leap yd =
     (let m = fst (monthDayOfYday leap yd); dd = snd (monthDayOfYday leap yd)
      in 1 \<le> m \<and> m \<le> 12 \<and> 1 \<le> dd \<and> dd \<le> 31
         \<and> daysBefore ! nat (m - 1) + (if leap \<and> m \<ge> 3 then 1 else 0) + (dd - 1) = yd)"

text \<open>
  A request from 2026-03-02 00:00:00 to 2026-03-03 00:30:00, as the options
  \<open>--start 2026-03-02\<close> and \<open>--end "2026-03-03 12:30:00 AM"\<close> produce it.
\<close>

definition demoStats :: Stats where
  "demoStats = \<lparr>statsStartTime = tDate 2026 3 2 0 0 0 0, statsEndTime = tDate 2026 3 3 0 30 0 0,
                 Sessions = [], statsData = None, HoursDiff = 0\<rparr>"

text \<open>Totals of 90 minutes, three completed sessions and one abandoned session.\<close>

definition demoTotals :: Data where
  "demoTotals = \<lparr>Weekday = (\<lambda>_. zeroQuantity), HourofDay = (\<lambda>_. zeroQuantity), History = [],
      HistoryKeyFormat = ''January 02, 2006'',
      Totals = \<lparr>minutes = 90, completed = 3, abandoned = 1\<rparr>, Averages = zeroQuantity\<rparr>"

text \<open>
  The instants the inner loop of \<open>calculateSessionDuration\<close> visits between \<open>date\<close> and
  \<open>vEnd\<close>, and the test of the loop body for an instant inside the reporting period.
\<close>

function minuteSteps :: "Time \<Rightarrow> Time \<Rightarrow> Time list" where
  "minuteSteps date vEnd =
     (if After date vEnd then [] else date # minuteSteps (Add date (1 * Minute)) vEnd)"
  by pat_completeness auto
termination
  by (relation "measure (\<lambda>(date, vEnd). nat (vEnd - date + 1))")
     (simp_all add: After_def Add_def Minute_def Second_def)

declare minuteSteps.simps [simp del]

definition inWindow :: "Time \<Rightarrow> Time \<Rightarrow> Time \<Rightarrow> bool" where
  "inWindow statsStart statsEnd date = (\<not> (Before date statsStart \<or> After date statsEnd))"

text \<open>
  Date strings as a user may type them: a year of four digits, then month and day, and
  in the time of day hour, minute and second, each written with its leading zero or
  without one, then \<open>AM\<close> or \<open>PM\<close>. \<open>hour24\<close> is the hour of the day that a
  twelve-hour clock reading stands for, and \<open>padded\<close> puts runs of white space
  characters around an option.
\<close>

definition num2 :: "bool \<Rightarrow> nat \<Rightarrow> string" where
  "num2 pad n = (if n < 10 \<and> \<not> pad then [digitChar n] else [digitChar (n div 10), digitChar n])"

definition year4 :: "nat \<Rightarrow> string" where
  "year4 y = [digitChar (y div 1000), digitChar (y div 100), digitChar (y div 10), digitChar y]"

definition dateOnly :: "nat \<Rightarrow> bool \<Rightarrow> nat \<Rightarrow> bool \<Rightarrow> nat \<Rightarrow> string" where
  "dateOnly y pm m pd d = year4 y @ ''-'' @ num2 pm m @ ''-'' @ num2 pd d"

definition clockOnly :: "bool \<Rightarrow> nat \<Rightarrow> bool \<Rightarrow> nat \<Rightarrow> bool \<Rightarrow> nat \<Rightarrow> bool \<Rightarrow> string" where
  "clockOnly ph h pmi mi ps s afternoon =
     num2 ph h @ '':'' @ num2 pmi mi @ '':'' @ num2 ps s @ (if afternoon then '' PM'' else '' AM'')"

definition hour24 :: "nat \<Rightarrow> bool \<Rightarrow> int" where
  "hour24 h afternoon =
     (if afternoon \<and> h < 12 then int h + 12 else if \<not> afternoon \<and> h = 12 then 0 else int h)"

definition dateTime ::
  "nat \<Rightarrow> bool \<Rightarrow> nat \<Rightarrow> bool \<Rightarrow> nat \<Rightarrow> bool \<Rightarrow> nat \<Rightarrow> bool \<Rightarrow> nat \<Rightarrow> bool \<Rightarrow> nat \<Rightarrow> bool \<Rightarrow> string" where
  "dateTime y pm m pd d ph h pmi mi ps s afternoon =
     dateOnly y pm m pd d @ '' '' @ clockOnly ph h pmi mi ps s afternoon"

definition padded :: "string list \<Rightarrow> string \<Rightarrow> string list \<Rightarrow> string" where
  "padded ws1 opt ws2 = concat ws1 @ opt @ concat ws2"







section \<open>Properties of computeTotals\<close>

lemma countSession_format:
  "HistoryKeyFormat (countSession s a b d) = HistoryKeyFormat d"
  by (simp add: countSession_def calculateSessionDuration_def Let_def)

lemma computeTotals_format:
  "HistoryKeyFormat (computeTotals ss a b d) = HistoryKeyFormat d"
  by (induction ss arbitrary: d) (simp_all add: countSession_format)

lemma computeTotals_append:
  "computeTotals (xs @ ys) a b d = computeTotals ys a b (computeTotals xs a b d)"
  by (induction xs arbitrary: d) simp_all

text \<open>
  C3. \<open>initData\<close> fixes the history key format from \<open>hoursDiff\<close> alone: the month
  format up to 24 hours, the day format above 24 and up to 744 hours, the year format
  above 8784 hours, the month format otherwise. Processing sessions afterwards leaves
  the format as it is. 12 hours give the month format, 100 hours the day format and
  9000 hours the year format.
\<close>

theorem initData_key_format:
  "HistoryKeyFormat (initData start end hoursDiff) =
     (if hoursDiff \<le> 24 then ''January 2006''
      else if hoursDiff \<le> 744 then ''January 02, 2006''
      else if hoursDiff > 8784 then ''2006''
      else ''January 2006'')
   \<and> HistoryKeyFormat (computeTotals sessions startTime endTime (initData start end hoursDiff))
       = HistoryKeyFormat (initData start end hoursDiff)
   \<and> HistoryKeyFormat (initData start end 12) = ''January 2006''
   \<and> HistoryKeyFormat (initData start end 100) = ''January 02, 2006''
   \<and> HistoryKeyFormat (initData start end 9000) = ''2006''"
  by (simp add: computeTotals_format initData_def hoursInADay_def maxHoursInAMonth_def
        maxHoursInAYear_def Let_def)

theorem initData_key_format_witness:
  "HistoryKeyFormat (initData 0 (744 * Hour) 744) = ''January 02, 2006''
   \<and> HistoryKeyFormat (initData 0 (745 * Hour) 745) = ''January 2006''
   \<and> HistoryKeyFormat (initData 0 (8785 * Hour) 8785) = ''2006''
   \<and> HistoryKeyFormat (initData 0 (24 * Hour) 24) = ''January 2006''"
  using initData_key_format [of 0 "744 * Hour" 744 "[]" 0 0]
    initData_key_format [of 0 "745 * Hour" 745 "[]" 0 0]
    initData_key_format [of 0 "8785 * Hour" 8785 "[]" 0 0]
    initData_key_format [of 0 "24 * Hour" 24 "[]" 0 0]
  by simp

text \<open>
  C9. A session whose end is the zero instant is passed over by \<open>computeTotals\<close>: on its
  own it leaves the whole of \<open>Data\<close> as it was, and anywhere in a list of sessions the
  result is that of the list without it.
\<close>

theorem unterminated_session_skipped:
  "IsZero (EndTime s) \<Longrightarrow>
     computeTotals [s] startTime endTime d = d
     \<and> computeTotals (pre @ s # post) startTime endTime d
         = computeTotals (pre @ post) startTime endTime d"
  by (simp add: computeTotals_append)

theorem unterminated_session_skipped_witness:
  "IsZero (EndTime \<lparr>StartTime = 7 * Hour, EndTime = 0, Completed = False,
             Timeline = [\<lparr>tlStartTime = 7 * Hour, tlEndTime = 8 * Hour\<rparr>]\<rparr>)
   \<and> computeTotals [\<lparr>StartTime = 7 * Hour, EndTime = 0, Completed = False,
             Timeline = [\<lparr>tlStartTime = 7 * Hour, tlEndTime = 8 * Hour\<rparr>]\<rparr>]
         0 (24 * Hour) (initData 0 (24 * Hour) 24)
       = initData 0 (24 * Hour) 24"
  using unterminated_session_skipped
    [of "\<lparr>StartTime = 7 * Hour, EndTime = 0, Completed = False,
          Timeline = [\<lparr>tlStartTime = 7 * Hour, tlEndTime = 8 * Hour\<rparr>]\<rparr>"
        0 "24 * Hour" "initData 0 (24 * Hour) 24" "[]" "[]"]
  by (simp add: IsZero_def)

section \<open>Calendar arithmetic\<close>

text \<open>
  The civil fields of an instant and \<open>tDate\<close> are inverse to each other: building a date
  from the year, month and day of an instant, with the day moved by \<open>k\<close>, gives the
  start of that day moved by \<open>k\<close> days.
\<close>

lemma min3: "0 \<le> (n::int) \<Longrightarrow> n \<le> 4 \<Longrightarrow> n - n div 4 = (if n = 4 then 3 else n)"
  by arith

lemma div_cycle: "0 \<le> (r::int) \<Longrightarrow> r < n \<Longrightarrow> (n * q + r) div n = q"
  by (metis add.commute div_mult_self2 div_pos_pos_trivial add_cancel_right_left less_le_not_le)

lemma yearOfDays_sound:
  fixes d :: int
  shows "daysSinceEpoch (fst (yearOfDays d)) + snd (yearOfDays d) = d
         \<and> 0 \<le> snd (yearOfDays d)
         \<and> snd (yearOfDays d) < (if isLeap (fst (yearOfDays d)) then 366 else 365)"
proof -
  define a where "a = d div 146097"
  define d1 where "d1 = d - 146097 * a"
  define b0 where "b0 = d1 div 36524"
  define b where "b = b0 - b0 div 4"
  define d2 where "d2 = d1 - 36524 * b"
  define c where "c = d2 div 1461"
  define d3 where "d3 = d2 - 1461 * c"
  define e0 where "e0 = d3 div 365"
  define e where "e = e0 - e0 div 4"
  define yd where "yd = d3 - 365 * e"
  define r where "r = 100 * b + 4 * c + e"
  have y: "fst (yearOfDays d) = 400 * a + r + 1" and ydeq: "snd (yearOfDays d) = yd"
    unfolding yearOfDays_def Let_def fst_conv snd_conv a_def [symmetric] d1_def [symmetric]
      b0_def [symmetric] b_def [symmetric] d2_def [symmetric] c_def [symmetric]
      d3_def [symmetric] e0_def [symmetric] e_def [symmetric] yd_def [symmetric]
    by (simp_all add: r_def)
  have "d1 = d mod 146097"
    by (simp add: d1_def a_def minus_mult_div_eq_mod)
  then have d1: "0 \<le> d1" "d1 < 146097"
    by simp_all
  have b0: "0 \<le> b0" "b0 \<le> 4" "b0 = 4 \<longrightarrow> d1 = 146096"
    unfolding b0_def using d1 by arith+
  have b: "b = (if b0 = 4 then 3 else b0)"
    unfolding b_def using b0 by (simp add: min3)
  have brange: "0 \<le> b" "b \<le> 3"
    using b b0 by (auto split: if_splits)
  have d2: "0 \<le> d2 \<and> d2 \<le> 36524 \<and> (d2 = 36524 \<longrightarrow> b = 3)"
  proof (cases "b0 = 4")
    case True
    with b0 b show ?thesis by (simp add: d2_def)
  next
    case False
    with b have "d2 = d1 mod 36524"
      by (simp add: d2_def b0_def minus_mult_div_eq_mod)
    moreover have "0 \<le> d1 mod 36524" "d1 mod 36524 < 36524"
      by simp_all
    ultimately show ?thesis by linarith
  qed
  have c: "0 \<le> c" "c \<le> 24"
    unfolding c_def using d2 by arith+
  have "d3 = d2 mod 1461"
    by (simp add: d3_def c_def minus_mult_div_eq_mod)
  then have d3: "0 \<le> d3" "d3 < 1461"
    by simp_all
  have e0: "0 \<le> e0" "e0 \<le> 4" "e0 = 4 \<longrightarrow> d3 = 1460"
    unfolding e0_def using d3 by arith+
  have e: "e = (if e0 = 4 then 3 else e0)"
    unfolding e_def using e0 by (simp add: min3)
  have erange: "0 \<le> e" "e \<le> 3"
    using e e0 by (auto split: if_splits)
  have yd: "0 \<le> yd \<and> yd \<le> 365 \<and> (yd = 365 \<longrightarrow> e = 3 \<and> d3 = 1460)"
  proof (cases "e0 = 4")
    case True
    with e0 e show ?thesis by (simp add: yd_def)
  next
    case False
    with e have "yd = d3 mod 365"
      by (simp add: yd_def e0_def minus_mult_div_eq_mod)
    moreover have "0 \<le> d3 mod 365" "d3 mod 365 < 365"
      by simp_all
    ultimately show ?thesis by linarith
  qed
  have r: "0 \<le> r" "r < 400"
    unfolding r_def using brange c erange by linarith+
  have r2: "0 \<le> 4 * c + e" "4 * c + e < 100"
    using c erange by linarith+
  have n400: "(400 * a + r) div 400 = a"
    using r by (rule div_cycle)
  have n100: "(100 * b + (4 * c + e)) div 100 = b"
    using r2 by (rule div_cycle)
  have n4: "(4 * c + e) div 4 = c"
    using erange by (intro div_cycle) linarith+
  have dse: "daysSinceEpoch (400 * a + r + 1) = 146097 * a + 36524 * b + 1461 * c + 365 * e"
  proof -
    have s1: "400 * a + r + 1 - 1 = 400 * a + r" by simp
    have s2: "400 * a + r - 400 * a = 100 * b + (4 * c + e)" by (simp add: r_def)
    have s3: "100 * b + (4 * c + e) - 100 * b = 4 * c + e" by simp
    have s4: "4 * c + e - 4 * c = e" by simp
    show ?thesis
      unfolding daysSinceEpoch_def Let_def s1 n400 s2 n100 s3 n4 s4 by (rule refl)
  qed
  have total: "146097 * a + 36524 * b + 1461 * c + 365 * e + yd = d"
    by (simp add: yd_def d3_def d2_def d1_def)
  have leap: "yd = 365 \<longrightarrow> isLeap (400 * a + r + 1)"
  proof
    assume "yd = 365"
    with yd have e3: "e = 3" and d1460: "d3 = 1460" by simp_all
    have "400 * a + r + 1 = 4 * (100 * a + 25 * b + c + 1)"
      by (simp add: r_def e3)
    then have m4: "(400 * a + r + 1) mod 4 = 0"
      by (simp only: mod_mult_self1_is_0)
    show "isLeap (400 * a + r + 1)"
    proof (cases "c = 24")
      case True
      with d1460 have "d2 = 36524" by (simp add: d3_def)
      with d2 have "b = 3" by simp
      with True e3 have "400 * a + r + 1 = 400 * (a + 1)" by (simp add: r_def)
      then show ?thesis by (simp add: isLeap_def)
    next
      case False
      with c have "c < 24" by simp
      have "400 * a + r + 1 = 100 * (4 * a + b) + (4 * c + 4)"
        by (simp add: r_def e3)
      then have "(400 * a + r + 1) mod 100 = (4 * c + 4) mod 100"
        by (simp only: mod_mult_self4)
      also have "\<dots> = 4 * c + 4"
        using c \<open>c < 24\<close> by simp
      finally have "(400 * a + r + 1) mod 100 \<noteq> 0"
        using c by simp
      with m4 show ?thesis by (simp add: isLeap_def)
    qed
  qed
  show ?thesis
    using dse total yd leap unfolding y ydeq by (auto split: if_splits)
qed

lemma monthDay_common: "list_all (monthDayOk False) [0..364]"
  by code_simp

lemma monthDay_leap: "list_all (monthDayOk True) [0..365]"
  by code_simp

lemma monthDayOfYday_sound:
  assumes "0 \<le> yd" "yd < (if leap then 366 else 365)"
  shows "monthDayOk leap yd"
proof (cases leap)
  case True
  with assms have "yd \<in> set [0..365]" by simp
  with monthDay_leap True show ?thesis by (simp only: list_all_iff)
next
  case False
  with assms have "yd \<in> set [0..364]" by simp
  with monthDay_common False show ?thesis by (simp only: list_all_iff)
qed

lemma tMonth_range: "1 \<le> tMonth t \<and> tMonth t \<le> 12"
  using monthDayOfYday_sound [of "tYearDay t" "isLeap (tYear t)"] yearOfDays_sound [of "absDays t"]
  by (simp add: tMonth_def tYear_def tYearDay_def monthDayOk_def Let_def)

lemma tDate_fields:
  "tDate (tYear t) (tMonth t) (tDay t + k) h mi s ns
     = (absDays t + k) * nsPerDay + h * Hour + mi * Minute + s * Second + ns"
proof -
  have m: "1 \<le> tMonth t" "tMonth t \<le> 12"
    using tMonth_range [of t] by simp_all
  then have norm: "(tMonth t - 1) div 12 = 0" "(tMonth t - 1) mod 12 + 1 = tMonth t"
    by simp_all
  have yr: "daysSinceEpoch (tYear t) + tYearDay t = absDays t"
    using yearOfDays_sound [of "absDays t"] by (simp add: tYear_def tYearDay_def)
  have "monthDayOk (isLeap (tYear t)) (tYearDay t)"
    using monthDayOfYday_sound [of "tYearDay t" "isLeap (tYear t)"] yearOfDays_sound [of "absDays t"]
    by (simp add: tYear_def tYearDay_def)
  then have md: "daysBefore ! nat (tMonth t - 1)
                 + (if isLeap (tYear t) \<and> tMonth t \<ge> 3 then 1 else 0) + (tDay t - 1) = tYearDay t"
    by (simp add: monthDayOk_def Let_def tMonth_def tDay_def)
  have "daysSinceEpoch (tYear t) + daysBefore ! nat (tMonth t - 1)
          + (if isLeap (tYear t) \<and> tMonth t \<ge> 3 then 1 else 0) + (tDay t + k - 1)
        = absDays t + k"
    using yr md by linarith
  then show ?thesis
    unfolding tDate_def Let_def norm by simp
qed

lemma clock_fields:
  "tHour t * Hour + tMinute t * Minute + tSecond t * Second + tNanosecond t = t mod nsPerDay"
proof -
  have a: "t mod Hour = (t mod nsPerDay) mod Hour"
    by (simp add: nsPerDay_def mod_mod_cancel)
  have b: "t mod Minute = (t mod Hour) mod Minute"
    by (simp add: Hour_def mod_mod_cancel)
  have c: "t mod Second = (t mod Minute) mod Second"
    by (simp add: Minute_def mod_mod_cancel)
  have "t mod nsPerDay = (t mod nsPerDay) div Hour * Hour + (t mod nsPerDay) mod Hour"
    by simp
  also have "(t mod nsPerDay) mod Hour = (t mod Hour) div Minute * Minute + (t mod Hour) mod Minute"
    unfolding a [symmetric] by simp
  also have "(t mod Hour) mod Minute = (t mod Minute) div Second * Second + (t mod Minute) mod Second"
    unfolding b [symmetric] by simp
  finally show ?thesis
    unfolding tHour_def tMinute_def tSecond_def tNanosecond_def c by simp
qed

lemma midnight_eq:
  "tDate (tYear t) (tMonth t) (tDay t) 0 0 0 0 = t - t mod nsPerDay"
  using tDate_fields [of t 0 0 0 0 0]
  by (simp add: absDays_def minus_mod_eq_div_mult)

lemma AddDate_days: "AddDate t 0 0 k = t + k * nsPerDay"
proof -
  have "AddDate t 0 0 k = (absDays t + k) * nsPerDay + t mod nsPerDay"
    unfolding AddDate_def using tDate_fields [of t k "tHour t" "tMinute t" "tSecond t" "tNanosecond t"]
      clock_fields [of t] by simp
  also have "\<dots> = t + k * nsPerDay"
    by (simp add: absDays_def algebra_simps)
  finally show ?thesis .
qed

lemma endOfDay_eq:
  "tDate (tYear t) (tMonth t) (tDay t) 23 59 59 0
     = t - t mod nsPerDay + 23 * Hour + 59 * Minute + 59 * Second"
  using tDate_fields [of t 0 23 59 59 0]
  by (simp add: absDays_def minus_mod_eq_div_mult)

section \<open>Properties of getPeriod\<close>

text \<open>
  The results of \<open>getPeriod\<close> in terms of the start of the current day,
  \<open>now - now mod nsPerDay\<close>.
\<close>

lemma getPeriod_days:
  "getPeriod period now =
     (let day0 = now - now mod nsPerDay;
          eod = day0 + 23 * Hour + 59 * Minute + 59 * Second
      in if period = ''today'' then (day0, eod)
         else if period = ''yesterday'' then (day0 - nsPerDay, eod - nsPerDay)
         else if period = ''7days'' then (day0 - 6 * nsPerDay, eod)
         else if period = ''14days'' then (day0 - 13 * nsPerDay, eod)
         else if period = ''30days'' then (day0 - 29 * nsPerDay, eod)
         else if period = ''90days'' then (day0 - 89 * nsPerDay, eod)
         else if period = ''180days'' then (day0 - 179 * nsPerDay, eod)
         else if period = ''365days'' then (day0 - 364 * nsPerDay, eod)
         else (zeroTime, eod))"
proof -
  have shift: "\<And>k. now + k * nsPerDay - (now + k * nsPerDay) mod nsPerDay
                 = now - now mod nsPerDay + k * nsPerDay"
    by simp
  show ?thesis
    unfolding getPeriod_def Let_def midnight_eq endOfDay_eq AddDate_days shift
    by simp
qed

lemma now_example: "tDate 2026 3 2 13 4 5 6 = 63908053445000000006"
  by (simp add: tDate_def daysSinceEpoch_def isLeap_def daysBefore_def nsPerDay_def Hour_def
        Minute_def Second_def Let_def)

lemma now_example_midnight: "tDate 2026 3 2 0 0 0 0 = 63908006400000000000"
  by (simp add: tDate_def daysSinceEpoch_def isLeap_def daysBefore_def nsPerDay_def Hour_def
        Minute_def Second_def Let_def)

lemma now_example_end: "tDate 2026 3 2 23 59 59 0 = 63908092799000000000"
  by (simp add: tDate_def daysSinceEpoch_def isLeap_def daysBefore_def nsPerDay_def Hour_def
        Minute_def Second_def Let_def)

text \<open>
  C4, as stated, fails: at 13:04:05 on 2026-03-02 the keyword \<open>all-time\<close> does not give
  the zero instant for both results.
\<close>

theorem getPeriod_all_time_counterexample:
  "getPeriod ''all-time'' (tDate 2026 3 2 13 4 5 6) \<noteq> (zeroTime, zeroTime)"
  by (simp add: getPeriod_days now_example Let_def zeroTime_def nsPerDay_def Hour_def Minute_def
        Second_def)

text \<open>
  C4, amended. For \<open>all-time\<close> the start is the zero instant and the end is 23:59:59 of
  the current day.
\<close>

theorem getPeriod_all_time:
  "getPeriod ''all-time'' now
     = (zeroTime, now - now mod nsPerDay + 23 * Hour + 59 * Minute + 59 * Second)
   \<and> IsZero (fst (getPeriod ''all-time'' now))"
  by (simp add: getPeriod_days Let_def IsZero_def zeroTime_def)

theorem getPeriod_all_time_witness:
  "getPeriod ''all-time'' (tDate 2026 3 2 13 4 5 6) = (zeroTime, tDate 2026 3 2 23 59 59 0)"
  using getPeriod_all_time [of "tDate 2026 3 2 13 4 5 6"]
  by (simp add: now_example now_example_end nsPerDay_def Hour_def Minute_def Second_def)

text \<open>
  C5, as stated, fails: at 13:04:05 on 2026-03-02 the start for \<open>today\<close> is not that
  instant.
\<close>

theorem getPeriod_today_counterexample:
  "fst (getPeriod ''today'' (tDate 2026 3 2 13 4 5 6)) \<noteq> tDate 2026 3 2 13 4 5 6"
  by (simp add: getPeriod_days now_example Let_def nsPerDay_def Hour_def Minute_def Second_def)

text \<open>
  C5, amended. For \<open>today\<close> the start is 00:00:00 of the current day, truncated as for
  the N-day keywords (it is the start for \<open>7days\<close> moved forward by six days), and the
  end is 23:59:59 of the current day. The start is \<open>now\<close> only if \<open>now\<close> is midnight.
\<close>

theorem getPeriod_today:
  "getPeriod ''today'' now
     = (now - now mod nsPerDay, now - now mod nsPerDay + 23 * Hour + 59 * Minute + 59 * Second)
   \<and> fst (getPeriod ''today'' now) = fst (getPeriod ''7days'' now) + 6 * nsPerDay
   \<and> (fst (getPeriod ''today'' now) = now) = (now mod nsPerDay = 0)"
  by (simp add: getPeriod_days Let_def)

theorem getPeriod_today_witness:
  "getPeriod ''today'' (tDate 2026 3 2 13 4 5 6)
     = (tDate 2026 3 2 0 0 0 0, tDate 2026 3 2 23 59 59 0)"
  using getPeriod_today [of "tDate 2026 3 2 13 4 5 6"]
  by (simp add: now_example now_example_midnight now_example_end nsPerDay_def Hour_def
        Minute_def Second_def)

text \<open>
  C7. For each of the keywords \<open>7days\<close>, \<open>14days\<close>, \<open>30days\<close>, \<open>90days\<close>, \<open>180days\<close>
  and \<open>365days\<close>, with \<open>n\<close> its number of days, the end is 23:59:59 of the current day
  and the start is 00:00:00 of the day \<open>n - 1\<close> days before. For \<open>yesterday\<close> the start
  is 00:00:00 and the end 23:59:59 of the day before the current one.
\<close>

theorem getPeriod_n_days:
  "((period, n) \<in> set [(''7days'', 7), (''14days'', 14), (''30days'', 30), (''90days'', 90),
                         (''180days'', 180), (''365days'', 365)] \<longrightarrow>
      getPeriod period now
        = (now - now mod nsPerDay - (n - 1) * nsPerDay,
           now - now mod nsPerDay + 23 * Hour + 59 * Minute + 59 * Second))
   \<and> getPeriod ''yesterday'' now
        = (now - now mod nsPerDay - nsPerDay,
           now - now mod nsPerDay - nsPerDay + 23 * Hour + 59 * Minute + 59 * Second)"
  by (auto simp add: getPeriod_days Let_def)

lemma example_week_start: "tDate 2026 2 24 0 0 0 0 = 63907488000000000000"
  by (simp add: tDate_def daysSinceEpoch_def isLeap_def daysBefore_def nsPerDay_def Hour_def
        Minute_def Second_def Let_def)

theorem getPeriod_n_days_witness:
  "(''7days'', 7) \<in> set [(''7days'', 7 :: int), (''14days'', 14), (''30days'', 30),
                            (''90days'', 90), (''180days'', 180), (''365days'', 365)]
   \<and> getPeriod ''7days'' (tDate 2026 3 2 13 4 5 6)
       = (tDate 2026 2 24 0 0 0 0, tDate 2026 3 2 23 59 59 0)"
  using getPeriod_n_days [of "''7days''" 7 "tDate 2026 3 2 13 4 5 6"]
  by (simp add: now_example example_week_start now_example_end nsPerDay_def Hour_def
        Minute_def Second_def)

section \<open>The hours of the reporting period in Show\<close>

lemma demo_start: "tDate 2026 3 2 0 0 0 0 = 63908006400000000000"
  by (simp add: tDate_def daysSinceEpoch_def isLeap_def daysBefore_def nsPerDay_def Hour_def
        Minute_def Second_def Let_def)
lemma demo_end: "tDate 2026 3 3 0 30 0 0 = 63908094600000000000"
  by (simp add: tDate_def daysSinceEpoch_def isLeap_def daysBefore_def nsPerDay_def Hour_def
        Minute_def Second_def Let_def)

lemma computeAverages_defined:
  "computeAverages d 63908006400000000000 63908094600000000000 \<noteq> None"
  unfolding computeAverages_def Let_def endOfDay_eq
  by (simp add: roundTime_def mathRound_def Hours_def Sub_def minDuration_def maxDuration_def
       nsPerDay_def Hour_def Minute_def Second_def signed_divide_int_def)

lemma Show_no_sessions:
  "\<not> IsZero (statsStartTime s) \<Longrightarrow> Sessions s = [] \<Longrightarrow>
   computeAverages (initData (statsStartTime s) (statsEndTime s)
        (truncFloat (Hours (Sub (statsEndTime s) (statsStartTime s)))))
      (statsStartTime s) (statsEndTime s) = Some d' \<Longrightarrow>
   Show (Inr []) s = Inr (s\<lparr>HoursDiff := truncFloat (Hours (Sub (statsEndTime s) (statsStartTime s))),
                           statsData := Some d'\<rparr>)"
  by (simp add: Show_def Let_def compute_def)

lemma demo_trunc: "truncFloat (Hours (Sub 63908094600000000000 63908006400000000000)) = 24"
  by (simp add: truncFloat_def Hours_def Sub_def minDuration_def maxDuration_def)

lemma demo_round: "roundTime (Hours (Sub 63908094600000000000 63908006400000000000)) = 25"
  by (simp add: roundTime_def mathRound_def Hours_def Sub_def minDuration_def maxDuration_def)

text \<open>
  C6 against the code. For the request \<open>demoStats\<close>, 24.5 hours long and without
  sessions, \<open>Show\<close> stores 24 in \<open>HoursDiff\<close>, the hours truncated, where rounding gives
  25, which is what \<open>displayAverages\<close> computes from the same two instants.
\<close>

theorem Show_truncates_hours:
  "map_sum id (\<lambda>s. (HoursDiff s, displayAveragesHoursDiff s)) (Show (Inr []) demoStats)
     = Inr (24, 25)"
proof -
  let ?st = "63908006400000000000 :: int" and ?en = "63908094600000000000 :: int"
  obtain d' where d': "computeAverages (initData ?st ?en 24) ?st ?en = Some d'"
    using computeAverages_defined [of "initData ?st ?en 24"] by auto
  have "Show (Inr []) demoStats = Inr (demoStats\<lparr>HoursDiff := 24, statsData := Some d'\<rparr>)"
    using Show_no_sessions [of demoStats d'] d'
    by (simp add: demoStats_def demo_start demo_end demo_trunc IsZero_def)
  then show ?thesis
    by (simp add: displayAveragesHoursDiff_def demoStats_def demo_start demo_end demo_round)
qed

section \<open>Properties of computeAverages\<close>

text \<open>
  C8. \<open>computeAverages\<close> moves \<open>end\<close> to 23:59:59 of its day, takes the rounded hours
  from \<open>start\<close> to there, divides them by 24 as integers, and, when that number of days
  is at least 1, stores as each average the rounded quotient of the total by it.
\<close>

theorem computeAverages_rounds:
  assumes "numberOfDays = roundTime (Hours (Sub (end - end mod nsPerDay + 23 * Hour
                              + 59 * Minute + 59 * Second) start)) sdiv 24"
    and "1 \<le> numberOfDays"
  shows "computeAverages d start end =
     Some (d\<lparr>Averages := (Averages d)
       \<lparr>minutes := roundTime (real_of_int (minutes (Totals d)) / real_of_int numberOfDays),
        completed := roundTime (real_of_int (completed (Totals d)) / real_of_int numberOfDays),
        abandoned := roundTime (real_of_int (abandoned (Totals d)) / real_of_int numberOfDays)\<rparr>\<rparr>)"
  using assms unfolding computeAverages_def Let_def endOfDay_eq by simp

lemma week_hours:
  "roundTime (Hours (Sub (63908053445000000006 - 63908053445000000006 mod nsPerDay + 23 * Hour
      + 59 * Minute + 59 * Second) 63907488000000000000)) sdiv 24 = 7"
  by (simp add: roundTime_def mathRound_def Hours_def Sub_def minDuration_def maxDuration_def
       nsPerDay_def Hour_def Minute_def Second_def signed_divide_int_def)

theorem computeAverages_rounds_witness:
  "7 = roundTime (Hours (Sub (tDate 2026 3 2 13 4 5 6 - tDate 2026 3 2 13 4 5 6 mod nsPerDay
          + 23 * Hour + 59 * Minute + 59 * Second) (tDate 2026 2 24 0 0 0 0))) sdiv 24
   \<and> (1 :: int) \<le> 7
   \<and> map_option Averages (computeAverages demoTotals (tDate 2026 2 24 0 0 0 0) (tDate 2026 3 2 13 4 5 6))
       = Some \<lparr>minutes = 13, completed = 0, abandoned = 0\<rparr>"
proof -
  have h: "7 = roundTime (Hours (Sub (tDate 2026 3 2 13 4 5 6 - tDate 2026 3 2 13 4 5 6 mod nsPerDay
          + 23 * Hour + 59 * Minute + 59 * Second) (tDate 2026 2 24 0 0 0 0))) sdiv 24"
    by (simp only: now_example example_week_start week_hours)
  have r: "roundTime (90 / 7) = 13" "roundTime (3 / 7) = 0" "roundTime (1 / 7) = 0"
    by (simp_all add: roundTime_def mathRound_def)
  show ?thesis
    using h computeAverages_rounds [OF h, of demoTotals] r
    by (simp add: demoTotals_def zeroQuantity_def)
qed

section \<open>Date options of NewStats\<close>

subsection \<open>Digits and the steps of the parser\<close>

lemma digitChar_cases: "digitChar n \<in> set ''0123456789''"
proof -
  have "\<forall>k \<in> set [0..<10]. (char_of (48 + k) :: char) \<in> set ''0123456789''"
    by code_simp
  moreover have "n mod 10 \<in> set [0..<10]"
    by simp
  ultimately show ?thesis
    unfolding digitChar_def by blast
qed

lemma digitVal_digitChar: "digitVal (digitChar n) = int (n mod 10)"
  by (simp add: digitVal_def digitChar_def)

lemma isDigitChar_digitChar: "isDigitChar (digitChar n)"
  by (simp add: isDigitChar_def digitChar_def)

lemma isDigit_simps:
  "isDigit [] n = False"
  "isDigit (c # cs) 0 = isDigitChar c"
  "isDigit (c # cs) (Suc n) = isDigit cs n"
  by (simp_all add: isDigit_def)

lemma isDigit_one: "isDigit (c # cs) 1 = isDigit cs 0"
  by (simp add: isDigit_def)

lemma getnum_num2:
  assumes "n < 100" "\<not> isDigit rest 0"
  shows "getnum (num2 pad n @ rest) False = Some (int n, rest)"
proof (cases "n < 10 \<and> \<not> pad")
  case True
  then have "num2 pad n @ rest = digitChar n # rest"
    by (simp add: num2_def)
  with True assms show ?thesis
    by (simp add: getnum_def isDigit_simps isDigit_one isDigitChar_digitChar digitVal_digitChar)
next
  case False
  then have "num2 pad n @ rest = digitChar (n div 10) # digitChar n # rest"
    by (auto simp: num2_def)
  moreover have "int (n div 10) * 10 + int (n mod 10) = int n"
  proof -
    have "int (n div 10 * 10 + n mod 10) = int n"
      by simp
    then show ?thesis
      by (simp only: of_nat_add of_nat_mult of_nat_numeral)
  qed
  moreover have "n div 10 mod 10 = n div 10"
    using assms(1) by simp
  ultimately show ?thesis
    by (simp add: getnum_def isDigit_simps isDigit_one isDigitChar_digitChar digitVal_digitChar)
qed

lemma year4_parts:
  "length (year4 y @ rest) < 4 = False"
  "isDigit (year4 y @ rest) 0"
  "take 4 (year4 y @ rest) = year4 y"
  "drop 4 (year4 y @ rest) = rest"
  "list_all isDigitChar (year4 y)"
  by (simp_all add: year4_def isDigit_simps isDigitChar_digitChar)

lemma year4_value:
  assumes "y < 10000"
  shows "foldl (\<lambda>a c. a * 10 + digitVal c) 0 (year4 y) = int y"
proof -
  have aux: "((A * 10 + B) * 10 + C) * 10 + D = Y"
    if "Y = 1000 * A + R1" "R1 = 100 * B + R2" "R2 = 10 * C + D" for A B C D R1 R2 Y :: nat
    using that by simp
  have n: "(1000::nat) * 10 = 10000" "(100::nat) * 10 = 1000" "(10::nat) * 10 = 100"
    by simp_all
  have y0: "y mod 10000 = y"
    using assms by simp
  have a: "y = 1000 * (y div 1000 mod 10) + y mod 1000"
    using mod_mult2_eq [of y 1000 10] unfolding n y0 .
  have b: "y mod 1000 = 100 * (y div 100 mod 10) + y mod 100"
    using mod_mult2_eq [of y 100 10] unfolding n .
  have c: "y mod 100 = 10 * (y div 10 mod 10) + y mod 10"
    using mod_mult2_eq [of y 10 10] unfolding n .
  have "((y div 1000 mod 10 * 10 + y div 100 mod 10) * 10 + y div 10 mod 10) * 10 + y mod 10 = y"
    using a b c by (rule aux)
  then have "int (((y div 1000 mod 10 * 10 + y div 100 mod 10) * 10 + y div 10 mod 10) * 10
               + y mod 10) = int y"
    by (rule arg_cong)
  then have e: "((int (y div 1000 mod 10) * 10 + int (y div 100 mod 10)) * 10
               + int (y div 10 mod 10)) * 10 + int (y mod 10) = int y"
    by (simp only: of_nat_add of_nat_mult of_nat_numeral)
  have "foldl (\<lambda>a c. a * 10 + digitVal c) 0 (year4 y)
        = ((int (y div 1000 mod 10) * 10 + int (y div 100 mod 10)) * 10
               + int (y div 10 mod 10)) * 10 + int (y mod 10)"
    unfolding year4_def foldl_Cons foldl_Nil digitVal_digitChar by (simp only: mult_zero_left add_0)
  then show ?thesis
    using e by (simp only:)
qed

lemma skip_char: "c \<noteq> CHR '' '' \<Longrightarrow> skip (c # rest) [c] = Some rest"
  by (subst skip.simps, simp, subst skip.simps, simp)

lemma skip_space: "skip (CHR '' '' # rest) '' '' = Some (cutspace rest)"
  by (subst skip.simps, simp add: cutspace_def, subst skip.simps, simp)

lemma skip_space_nil: "skip [] '' '' = Some []"
  by (subst skip.simps, simp add: cutspace_def, subst skip.simps, simp)

lemma daysIn_le:
  assumes "1 \<le> m" "m \<le> 12"
  shows "daysIn m y \<le> 31"
proof -
  have "m = 1 \<or> m = 2 \<or> m = 3 \<or> m = 4 \<or> m = 5 \<or> m = 6 \<or> m = 7 \<or> m = 8 \<or> m = 9
        \<or> m = 10 \<or> m = 11 \<or> m = 12"
    using assms by presburger
  then show ?thesis
    unfolding daysIn_def daysBefore_def by (elim disjE) simp_all
qed

lemma getnum_nil: "getnum [] fixed = None"
  by (simp add: getnum_def isDigit_simps)

lemma year4_length: "length (year4 y) = 4"
  by (simp add: year4_def)

lemma digitChar_not_space: "digitChar n \<noteq> CHR '' ''"
  using digitChar_cases [of n] by auto

lemma cutspace_simps:
  "cutspace [] = []"
  "c \<noteq> CHR '' '' \<Longrightarrow> cutspace (c # cs) = c # cs"
  "cutspace (num2 pad n @ rest) = num2 pad n @ rest"
  by (simp_all add: cutspace_def num2_def digitChar_not_space)

lemmas parse_steps = getnum_num2 getnum_nil year4_parts year4_length year4_value skip_char
  skip_space skip_space_nil isDigit_simps isDigitChar_def cutspace_simps

lemma Parse_dateTime:
  assumes "y < 10000" "1 \<le> m" "m \<le> 12" "1 \<le> d" "int d \<le> daysIn (int m) (int y)"
    and "h \<le> 12" "mi < 60" "s < 60"
  shows "Parse (dateOnly y pm m pd d @ '' '' @ clockOnly ph h pmi mi ps s afternoon)
         = Some (tDate (int y) (int m) (int d) (hour24 h afternoon) (int mi) (int s) 0)"
proof -
  have "int d \<le> 31"
    using assms(2,3,5) daysIn_le [of "int m" "int y"] by simp
  then have d: "d < 100"
    by simp
  have m: "m < 100" and h: "h < 100" and mi: "mi < 100" and s: "s < 100"
    using assms by simp_all
  show ?thesis
    using assms
    by (cases afternoon)
       (simp_all add: Parse_def dateOnly_def clockOnly_def hour24_def parse_steps d m h mi s)
qed

lemma Parse_dateOnly:
  assumes "y < 10000" "1 \<le> m" "m \<le> 12" "d < 100"
  shows "Parse (dateOnly y pm m pd d) = None"
proof -
  have m: "m < 100"
    using assms by simp
  have "getnum (num2 pd d) False = Some (int d, [])"
    using getnum_num2 [of d "[]" pd] assms(4) by (simp add: isDigit_simps)
  then show ?thesis
    using assms
    by (simp add: Parse_def dateOnly_def parse_steps m)
qed

subsection \<open>White space around an option\<close>

lemma leadingSpace_rune: "\<forall>r \<in> set spaceRunes. leadingSpace (r @ s) = Some r"
  by (simp add: spaceRunes_def leadingSpace_def)

lemma trailingSpace_rune: "\<forall>r \<in> set spaceRunes. trailingSpace (s @ r) = Some r"
  by (simp add: spaceRunes_def trailingSpace_def)

lemma leadingSpace_none: "c \<notin> set (map hd spaceRunes) \<Longrightarrow> leadingSpace (c # cs) = None"
  by (auto simp: spaceRunes_def leadingSpace_def)

lemma trailingSpace_none: "c \<notin> set (map last spaceRunes) \<Longrightarrow> trailingSpace (cs @ [c]) = None"
  by (auto simp: spaceRunes_def trailingSpace_def)

lemma trimLeft_rune: "r \<in> set spaceRunes \<Longrightarrow> trimLeft (r @ s) = trimLeft s"
  using leadingSpace_rune [of s] by (subst trimLeft.simps) auto

lemma trimRight_rune: "r \<in> set spaceRunes \<Longrightarrow> trimRight (s @ r) = trimRight s"
  using trailingSpace_rune [of s] by (subst trimRight.simps) auto

lemma trimLeft_stop: "c \<notin> set (map hd spaceRunes) \<Longrightarrow> trimLeft (c # cs) = c # cs"
  by (subst trimLeft.simps) (simp add: leadingSpace_none)

lemma trimRight_stop: "c \<notin> set (map last spaceRunes) \<Longrightarrow> trimRight (cs @ [c]) = cs @ [c]"
  by (subst trimRight.simps) (simp add: trailingSpace_none)

lemma trimLeft_runs: "set ws \<subseteq> set spaceRunes \<Longrightarrow> trimLeft (concat ws @ s) = trimLeft s"
  by (induction ws) (simp_all add: trimLeft_rune)

lemma trimRight_runs: "set ws \<subseteq> set spaceRunes \<Longrightarrow> trimRight (s @ concat ws) = trimRight s"
proof (induction ws rule: rev_induct)
  case Nil
  show ?case by simp
next
  case (snoc r ws)
  then have "trimRight ((s @ concat ws) @ r) = trimRight (s @ concat ws)"
    by (intro trimRight_rune) simp
  with snoc show ?case by simp
qed

lemma TrimSpace_padded:
  assumes "set ws1 \<subseteq> set spaceRunes" "set ws2 \<subseteq> set spaceRunes"
    and "s \<noteq> []" "hd s \<notin> set (map hd spaceRunes)" "last s \<notin> set (map last spaceRunes)"
  shows "TrimSpace (concat ws1 @ s @ concat ws2) = s"
proof -
  obtain c cs where s: "s = c # cs"
    using assms(3) by (cases s) auto
  have "trimLeft (concat ws1 @ s @ concat ws2) = s @ concat ws2"
    using assms(1,4) by (simp add: trimLeft_runs s trimLeft_stop)
  moreover have "trimRight (s @ concat ws2) = s"
    using assms(2,3,5) trimRight_stop [of "last s" "butlast s"]
    by (simp add: trimRight_runs)
  ultimately show ?thesis
    by (simp add: TrimSpace_def)
qed

subsection \<open>The two options\<close>

lemma digitChar_not_white:
  "digitChar n \<notin> hd ` set spaceRunes" "digitChar n \<notin> last ` set spaceRunes"
  using digitChar_cases [of n] by (auto simp: spaceRunes_def)

lemma num2_length: "length (num2 pad n) = (if n < 10 \<and> \<not> pad then 1 else 2)"
  by (simp add: num2_def)

lemma num2_last: "last (num2 pad n) = digitChar n" "num2 pad n \<noteq> []"
  by (simp_all add: num2_def)

lemma dateOnly_ends:
  "dateOnly y pm m pd d \<noteq> []"
  "hd (dateOnly y pm m pd d) \<notin> set (map hd spaceRunes)"
  "last (dateOnly y pm m pd d) \<notin> set (map last spaceRunes)"
  by (simp_all add: dateOnly_def year4_def num2_last digitChar_not_white)

lemma dateTime_ends:
  "dateTime y pm m pd d ph h pmi mi ps s afternoon \<noteq> []"
  "hd (dateTime y pm m pd d ph h pmi mi ps s afternoon) \<notin> set (map hd spaceRunes)"
  "last (dateTime y pm m pd d ph h pmi mi ps s afternoon) \<notin> set (map last spaceRunes)"
proof -
  show "dateTime y pm m pd d ph h pmi mi ps s afternoon \<noteq> []"
    by (simp add: dateTime_def dateOnly_def year4_def)
  show "hd (dateTime y pm m pd d ph h pmi mi ps s afternoon) \<notin> set (map hd spaceRunes)"
    by (simp add: dateTime_def dateOnly_def year4_def digitChar_not_white)
  have "last (dateTime y pm m pd d ph h pmi mi ps s afternoon) = CHR ''M''"
    by (simp add: dateTime_def clockOnly_def)
  then show "last (dateTime y pm m pd d ph h pmi mi ps s afternoon) \<notin> set (map last spaceRunes)"
    by (simp add: spaceRunes_def)
qed

lemma dateOnly_length:
  "length (dateOnly y pm m pd d) = 10 \<longleftrightarrow> (pm \<or> 10 \<le> m) \<and> (pd \<or> 10 \<le> d)"
  by (auto simp: dateOnly_def year4_length num2_length)

lemma dateTime_length: "length (dateTime y pm m pd d ph h pmi mi ps s afternoon) \<noteq> 10"
  by (simp add: dateTime_def dateOnly_def clockOnly_def year4_length num2_length)

lemma rebuild_whole_second:
  "tDate (tYear v) (tMonth v) (tDay v) (tHour v) (tMinute v) (tSecond v) 0 = v - v mod Second"
proof -
  have "tDate (tYear v) (tMonth v) (tDay v) (tHour v) (tMinute v) (tSecond v) 0
        = absDays v * nsPerDay + (v mod nsPerDay - tNanosecond v)"
    using tDate_fields [of v 0 "tHour v" "tMinute v" "tSecond v" 0] clock_fields [of v]
    by simp
  also have "\<dots> = v - v mod Second"
    by (simp add: absDays_def tNanosecond_def algebra_simps)
  finally show ?thesis .
qed

lemma tDate_whole_second: "tDate y m d h mi s 0 mod Second = 0"
proof -
  have "tDate y m d h mi s 0
        = Second * ((daysSinceEpoch (y + (m - 1) div 12) + daysBefore ! nat ((m - 1) mod 12)
             + (if isLeap (y + (m - 1) div 12) \<and> 3 \<le> (m - 1) mod 12 + 1 then 1 else 0)
             + (d - 1)) * 86400 + h * 3600 + mi * 60 + s)"
    by (simp add: tDate_def Let_def nsPerDay_def Hour_def Minute_def algebra_simps)
  then show ?thesis
    by (simp only: mod_mult_self1_is_0)
qed

lemma parseOption_Some:
  assumes "Parse (if length opt = timeFormatLength then opt @ suffix else opt)
           = Some (tDate y m d h mi s 0)"
  shows "parseOption suffix opt = Inr (tDate y m d h mi s 0)"
  using assms by (simp add: parseOption_def Let_def rebuild_whole_second tDate_whole_second)

lemma parseOption_None:
  assumes "Parse (if length opt = timeFormatLength then opt @ suffix else opt) = None"
  shows "parseOption suffix opt = Inl errParsingDate"
  using assms by (simp add: parseOption_def Let_def)

lemma TrimSpace_Nil: "TrimSpace [] = []"
proof -
  have "leadingSpace [] = None" "trailingSpace [] = None"
    by (simp_all add: leadingSpace_def trailingSpace_def spaceRunes_def)
  then show ?thesis
    by (simp add: TrimSpace_def trimLeft.simps [of "[]"] trimRight.simps [of "[]"])
qed

lemma TrimSpace_date:
  assumes "set ws1 \<subseteq> set spaceRunes" "set ws2 \<subseteq> set spaceRunes"
  shows "TrimSpace (padded ws1 (dateOnly y pm m pd d) ws2) = dateOnly y pm m pd d"
    and "TrimSpace (padded ws1 (dateTime y pm m pd d ph h pmi mi ps s afternoon) ws2)
         = dateTime y pm m pd d ph h pmi mi ps s afternoon"
  unfolding padded_def
  by (rule TrimSpace_padded [OF assms dateOnly_ends], rule TrimSpace_padded [OF assms dateTime_ends])

lemma clock_literals:
  "clockOnly True 12 True 0 True 0 False = ''12:00:00 AM''"
  "clockOnly True 11 True 59 True 59 True = ''11:59:59 PM''"
  by code_simp+

lemma Parse_expanded:
  assumes "y < 10000" "1 \<le> m" "m \<le> 12" "1 \<le> d" "int d \<le> daysIn (int m) (int y)"
  shows "Parse (dateOnly y pm m pd d @ '' 12:00:00 AM'') = Some (tDate (int y) (int m) (int d) 0 0 0 0)"
    and "Parse (dateOnly y pm m pd d @ '' 11:59:59 PM'')
         = Some (tDate (int y) (int m) (int d) 23 59 59 0)"
proof -
  show "Parse (dateOnly y pm m pd d @ '' 12:00:00 AM'') = Some (tDate (int y) (int m) (int d) 0 0 0 0)"
    using Parse_dateTime [OF assms, of 12 0 0 pm pd True True True False]
    by (simp add: clock_literals hour24_def)
  show "Parse (dateOnly y pm m pd d @ '' 11:59:59 PM'')
         = Some (tDate (int y) (int m) (int d) 23 59 59 0)"
    using Parse_dateTime [OF assms, of 11 59 59 pm pd True True True True]
    by (simp add: clock_literals hour24_def)
qed

lemma range_same: "\<not> truncFloat (Seconds (Sub t t)) < 0"
  by (simp add: Sub_def Seconds_def truncFloat_def minDuration_def maxDuration_def)

lemma range_day:
  "\<not> truncFloat (Seconds (Sub (tDate y m d 23 59 59 0) (tDate y m d 0 0 0 0))) < 0"
proof -
  have "tDate y m d 23 59 59 0 - tDate y m d 0 0 0 0 = 86399000000000"
    by (simp add: tDate_def Let_def Hour_def Minute_def Second_def)
  then show ?thesis
    by (simp add: Sub_def Seconds_def truncFloat_def minDuration_def maxDuration_def)
qed

text \<open>
  C10. Let the date be any valid calendar date with a year of four digits, written
  with or without leading zeros in month and day, with any white space of Unicode
  around the option. A full date and time, whose month, day, hour, minute and second
  may each have one digit or two, is accepted by \<open>NewStats\<close> as start and as end. The
  date alone has ten characters exactly when month and day both have two digits; with
  any other length it is not expanded and \<open>NewStats\<close> answers with the date format
  error, as start and as end, although with either time of day appended it would
  parse. With ten characters it is expanded to 00:00:00 as start and to 23:59:59 as
  end.
\<close>

theorem NewStats_date_options:
  assumes "period = [] \<or> contains statsPeriod period"
    and "y < 10000" "1 \<le> m" "m \<le> 12" "1 \<le> d" "int d \<le> daysIn (int m) (int y)"
    and "h \<le> 12" "mi < 60" "s < 60"
    and "set ws1 \<subseteq> set spaceRunes" "set ws2 \<subseteq> set spaceRunes"
  shows
    "NewStats period (padded ws1 (dateTime y pm m pd d ph h pmi mi ps s afternoon) ws2)
        (padded ws1 (dateTime y pm m pd d ph h pmi mi ps s afternoon) ws2) now
       = Inr (tDate (int y) (int m) (int d) (hour24 h afternoon) (int mi) (int s) 0,
              tDate (int y) (int m) (int d) (hour24 h afternoon) (int mi) (int s) 0)
     \<and> (length (dateOnly y pm m pd d) = timeFormatLength \<longleftrightarrow> (pm \<or> 10 \<le> m) \<and> (pd \<or> 10 \<le> d))
     \<and> (length (dateOnly y pm m pd d) \<noteq> timeFormatLength \<longrightarrow>
          NewStats period (padded ws1 (dateOnly y pm m pd d) ws2) endOpt now = Inl errParsingDate
          \<and> NewStats period [] (padded ws1 (dateOnly y pm m pd d) ws2) now = Inl errParsingDate)
     \<and> Parse (dateOnly y pm m pd d @ '' 12:00:00 AM'')
         = Some (tDate (int y) (int m) (int d) 0 0 0 0)
     \<and> Parse (dateOnly y pm m pd d @ '' 11:59:59 PM'')
         = Some (tDate (int y) (int m) (int d) 23 59 59 0)
     \<and> (length (dateOnly y pm m pd d) = timeFormatLength \<longrightarrow>
          NewStats period (padded ws1 (dateOnly y pm m pd d) ws2)
            (padded ws1 (dateOnly y pm m pd d) ws2) now
          = Inr (tDate (int y) (int m) (int d) 0 0 0 0, tDate (int y) (int m) (int d) 23 59 59 0))"
proof -
  let ?date = "dateOnly y pm m pd d"
  let ?full = "dateTime y pm m pd d ph h pmi mi ps s afternoon"
  let ?t = "tDate (int y) (int m) (int d) (hour24 h afternoon) (int mi) (int s) 0"
  note date = assms(2-6)
  have period: "\<not> (period \<noteq> [] \<and> \<not> contains statsPeriod period)"
    using assms(1) by blast
  have trim: "TrimSpace (padded ws1 ?date ws2) = ?date" "TrimSpace (padded ws1 ?full ws2) = ?full"
    using assms(10,11) by (rule TrimSpace_date)+
  have nonempty: "?date \<noteq> []" "?full \<noteq> []"
    using dateOnly_ends(1) dateTime_ends(1) by blast+
  have d100: "d < 100"
    using assms(3,4,6) daysIn_le [of "int m" "int y"] by simp
  have full: "parseOption suffix ?full = Inr ?t" for suffix
  proof (rule parseOption_Some)
    have "length ?full \<noteq> timeFormatLength"
      by (simp add: dateTime_length timeFormatLength_def)
    then have "(if length ?full = timeFormatLength then ?full @ suffix else ?full) = ?full"
      by simp
    then show "Parse (if length ?full = timeFormatLength then ?full @ suffix else ?full) = Some ?t"
      using Parse_dateTime [OF assms(2-9), of pm pd ph pmi ps afternoon]
      by (simp only: dateTime_def)
  qed
  have short: "parseOption suffix ?date = Inl errParsingDate"
    if "length ?date \<noteq> timeFormatLength" for suffix
    using that Parse_dateOnly [OF assms(2-4) d100, of pm pd]
    by (intro parseOption_None) simp
  have long: "parseOption '' 12:00:00 AM'' ?date = Inr (tDate (int y) (int m) (int d) 0 0 0 0)"
    "parseOption '' 11:59:59 PM'' ?date = Inr (tDate (int y) (int m) (int d) 23 59 59 0)"
    if "length ?date = timeFormatLength"
    using that Parse_expanded [OF date, of pm pd]
    by (simp_all add: parseOption_Some)
  have a: "NewStats period (padded ws1 ?full ws2) (padded ws1 ?full ws2) now = Inr (?t, ?t)"
    using period by (simp add: NewStats_def split_beta trim nonempty full range_same)
  have b: "length ?date = timeFormatLength \<longleftrightarrow> (pm \<or> 10 \<le> m) \<and> (pd \<or> 10 \<le> d)"
    by (simp add: timeFormatLength_def dateOnly_length)
  have c: "NewStats period (padded ws1 ?date ws2) endOpt now = Inl errParsingDate"
    "NewStats period [] (padded ws1 ?date ws2) now = Inl errParsingDate"
    if "length ?date \<noteq> timeFormatLength"
    using period that
    by (simp_all add: NewStats_def split_beta trim nonempty short TrimSpace_Nil)
  have e: "NewStats period (padded ws1 ?date ws2) (padded ws1 ?date ws2) now
          = Inr (tDate (int y) (int m) (int d) 0 0 0 0, tDate (int y) (int m) (int d) 23 59 59 0)"
    if "length ?date = timeFormatLength"
    using period that
    by (simp add: NewStats_def split_beta trim nonempty long range_day)
  show ?thesis
    using a b c e Parse_expanded [OF date, of pm pd] by blast
qed

lemma example_strings:
  "dateOnly 2026 False (Suc 0) False 2 = ''2026-1-2''"
  "dateTime 2026 False (Suc 0) False 2 False 3 True 4 True 5 True = ''2026-1-2 3:04:05 PM''"
  by code_simp+

lemma example_days: "int 2 \<le> daysIn (int 1) (int 2026)"
  by (simp add: daysIn_def daysBefore_def)

lemma example_period: "contains statsPeriod ''7days''"
  by (simp add: statsPeriod_def)

lemma example_spaces:
  "set [[CHR 0xC2, CHR 0xA0]] \<subseteq> set spaceRunes" "set ['' '', [CHR 0x0A]] \<subseteq> set spaceRunes"
  by (simp_all add: spaceRunes_def)

text \<open>
  Two example strings, between a no-break space and a space and a line feed:
  \<open>2026-1-2 3:04:05 PM\<close> is accepted as 15:04:05 on 2026-01-02, and \<open>2026-1-2\<close>, of
  eight characters, is answered with the date format error.
\<close>

theorem NewStats_date_options_witness:
  "contains statsPeriod ''7days''
   \<and> (2026 :: nat) < 10000 \<and> (1 :: nat) \<le> 1 \<and> (1 :: nat) \<le> 12 \<and> (1 :: nat) \<le> 2
   \<and> int 2 \<le> daysIn (int 1) (int 2026) \<and> (3 :: nat) \<le> 12 \<and> (4 :: nat) < 60 \<and> (5 :: nat) < 60
   \<and> set [[CHR 0xC2, CHR 0xA0]] \<subseteq> set spaceRunes \<and> set ['' '', [CHR 0x0A]] \<subseteq> set spaceRunes
   \<and> length ''2026-1-2'' \<noteq> timeFormatLength
   \<and> NewStats ''7days'' ([CHR 0xC2, CHR 0xA0] @ ''2026-1-2 3:04:05 PM'' @ '' '' @ [CHR 0x0A])
         ([CHR 0xC2, CHR 0xA0] @ ''2026-1-2 3:04:05 PM'' @ '' '' @ [CHR 0x0A])
         (tDate 2026 3 2 13 4 5 6)
       = Inr (tDate 2026 1 2 15 4 5 0, tDate 2026 1 2 15 4 5 0)
   \<and> NewStats ''7days'' ([CHR 0xC2, CHR 0xA0] @ ''2026-1-2'' @ '' '' @ [CHR 0x0A]) []
         (tDate 2026 3 2 13 4 5 6)
       = Inl errParsingDate"
  using NewStats_date_options [of "''7days''" 2026 1 2 3 4 5 "[[CHR 0xC2, CHR 0xA0]]"
      "['' '', [CHR 0x0A]]" False False False True True True "tDate 2026 3 2 13 4 5 6" "[]"]
    example_days example_period example_spaces
  by (simp add: example_strings padded_def hour24_def timeFormatLength_def)

section \<open>The minute-by-minute walk\<close>

text \<open>
  The inner loop is a fold of its body over the instants it visits, and the body does
  nothing at an instant outside the reporting period, so the fold may as well run over
  the instants inside.
\<close>

lemma minuteStep_outside:
  "Before date statsStart \<or> After date statsEnd \<Longrightarrow>
     minuteStep layout statsStart statsEnd vEnd date w = w"
  by (simp add: minuteStep_def)

lemma walk_unfold:
  "walk layout statsStart statsEnd vEnd date w =
     (if After date vEnd then w
      else walk layout statsStart statsEnd vEnd (Add date (1 * Minute))
             (minuteStep layout statsStart statsEnd vEnd date w))"
  by (rule walk.simps)

lemma minuteSteps_unfold:
  "minuteSteps date vEnd =
     (if After date vEnd then [] else date # minuteSteps (Add date (1 * Minute)) vEnd)"
  by (rule minuteSteps.simps)

lemma walk_fold:
  "walk layout statsStart statsEnd vEnd date w
     = fold (minuteStep layout statsStart statsEnd vEnd) (minuteSteps date vEnd) w"
proof (induction layout statsStart statsEnd vEnd date w rule: walk.induct)
  case (1 layout statsStart statsEnd vEnd date w)
  show ?case
  proof (cases "After date vEnd")
    case True
    then have "walk layout statsStart statsEnd vEnd date w = w"
      and "minuteSteps date vEnd = []"
      by (subst walk_unfold, simp only: if_True, subst minuteSteps_unfold, simp only: if_True)
    then show ?thesis by (simp only: fold_simps id_apply)
  next
    case False
    then have a: "walk layout statsStart statsEnd vEnd date w
        = walk layout statsStart statsEnd vEnd (Add date (1 * Minute))
            (minuteStep layout statsStart statsEnd vEnd date w)"
      by (subst walk_unfold) (simp only: if_False)
    from False have b: "minuteSteps date vEnd = date # minuteSteps (Add date (1 * Minute)) vEnd"
      by (subst minuteSteps_unfold) (simp only: if_False)
    show ?thesis
      unfolding a b "1.IH" [OF False] by (simp only: fold_simps comp_apply)
  qed
qed

lemma fold_minuteStep_filter:
  "fold (minuteStep layout statsStart statsEnd vEnd) (filter (inWindow statsStart statsEnd) ts) w
     = fold (minuteStep layout statsStart statsEnd vEnd) ts w"
proof (induction ts arbitrary: w)
  case Nil
  show ?case by simp
next
  case (Cons t ts)
  show ?case
  proof (cases "inWindow statsStart statsEnd t")
    case True
    then show ?thesis by (simp add: Cons.IH)
  next
    case False
    then have "minuteStep layout statsStart statsEnd vEnd t w = w"
      by (intro minuteStep_outside) (simp add: inWindow_def)
    with False show ?thesis by (simp add: Cons.IH)
  qed
qed

lemma walk_in_window_steps:
  "walk layout statsStart statsEnd vEnd date w
     = fold (minuteStep layout statsStart statsEnd vEnd)
         (filter (inWindow statsStart statsEnd) (minuteSteps date vEnd)) w"
  unfolding fold_minuteStep_filter by (rule walk_fold)


text \<open>Evaluation of the walk on the second and third of March 2026.\<close>

lemma Format_day_layout:
  "Format ''January 02, 2006'' t
     = longMonthNames ! nat (tMonth t - 1) @ '' '' @ appendInt (tDay t) 2 @ '', ''
       @ appendInt (tYear t) 4"
  by simp

lemma civil_of_absDays:
  "tYear t = fst (yearOfDays (absDays t))"
  "tMonth t = fst (monthDayOfYday (isLeap (fst (yearOfDays (absDays t)))) (snd (yearOfDays (absDays t))))"
  "tDay t = snd (monthDayOfYday (isLeap (fst (yearOfDays (absDays t)))) (snd (yearOfDays (absDays t))))"
  by (simp_all add: tYear_def tMonth_def tDay_def tYearDay_def)

lemma label_march_02:
  "longMonthNames ! nat (fst (monthDayOfYday (isLeap (fst (yearOfDays 739676))) (snd (yearOfDays 739676))) - 1)
     @ '' '' @ appendInt (snd (monthDayOfYday (isLeap (fst (yearOfDays 739676))) (snd (yearOfDays 739676)))) 2
     @ '', '' @ appendInt (fst (yearOfDays 739676)) 4 = ''March 02, 2026''"
  by code_simp

lemma label_march_03:
  "longMonthNames ! nat (fst (monthDayOfYday (isLeap (fst (yearOfDays 739677))) (snd (yearOfDays 739677))) - 1)
     @ '' '' @ appendInt (snd (monthDayOfYday (isLeap (fst (yearOfDays 739677))) (snd (yearOfDays 739677)))) 2
     @ '', '' @ appendInt (fst (yearOfDays 739677)) 4 = ''March 03, 2026''"
  by code_simp

lemma Format_march_02:
  "absDays t = 739676 \<Longrightarrow> Format ''January 02, 2006'' t = ''March 02, 2026''"
  unfolding Format_day_layout civil_of_absDays using label_march_02 by simp

lemma Format_march_03:
  "absDays t = 739677 \<Longrightarrow> Format ''January 02, 2006'' t = ''March 03, 2026''"
  unfolding Format_day_layout civil_of_absDays using label_march_03 by simp

lemmas walk_eval = walk.simps minuteStep_def emptyWalk_def After_def Before_def Add_def Sub_def
  Seconds_def minDuration_def maxDuration_def addSecs_def tHour_def tWeekday_def absDays_def
  nsPerDay_def Hour_def Minute_def Second_def

lemma march_instants:
  "tDate 2026 3 2 0 0 0 0 = 63908006400000000000"
  "tDate 2026 3 2 23 50 0 0 = 63908092200000000000"
  "tDate 2026 3 2 23 59 59 0 = 63908092799000000000"
  "tDate 2026 3 3 0 0 0 0 = 63908092800000000000"
  "tDate 2026 3 3 0 5 0 0 = 63908093100000000000"
  "tDate 2026 3 3 0 10 0 0 = 63908093400000000000"
  "tDate 2026 3 3 23 59 59 0 = 63908179199000000000"
  by (simp_all add: tDate_def daysSinceEpoch_def isLeap_def daysBefore_def nsPerDay_def Hour_def
        Minute_def Second_def Let_def)

lemma walk_across_window_end:
  "walk ''January 02, 2006'' (tDate 2026 3 2 0 0 0 0) (tDate 2026 3 2 23 59 59 0)
      (tDate 2026 3 3 0 10 0 0) (tDate 2026 3 2 23 50 0 0) emptyWalk
   = \<lparr>hourly = [(23, 600)], weekday = [(1, 600)], daily = [(''March 02, 2026'', 600)],
       seconds = 1200, durationAdded = True\<rparr>"
  unfolding march_instants
  by (simp add: walk_eval Format_march_02 del: Format.simps)

lemma walk_across_window_start:
  "walk ''January 02, 2006'' (tDate 2026 3 3 0 0 0 0) (tDate 2026 3 3 23 59 59 0)
      (tDate 2026 3 3 0 10 0 0) (tDate 2026 3 2 23 50 0 0) emptyWalk
   = \<lparr>hourly = [(0, 600)], weekday = [(2, 600)], daily = [(''March 03, 2026'', 600)],
       seconds = 600, durationAdded = True\<rparr>"
  unfolding march_instants
  by (simp add: walk_eval Format_march_03 del: Format.simps)

text \<open>
  C2. A minute-step whose instant is before the start or after the end of the reporting
  period leaves the three maps of seconds, and the rest of the state of the walk, as
  they were; the walk over a sub-interval is the fold of the loop body over the instants
  inside the period. For the sub-interval from 23:50 on 2026-03-02 to 00:10 on the next
  day: when the period ends at 23:59:59 on 2026-03-02, the ten minutes before midnight
  are accumulated (600 seconds for hour 23, Monday, and the label of the second of
  March); when the period starts at 00:00:00 on 2026-03-03, the ten minutes after
  midnight are.
\<close>

theorem out_of_window_steps_skipped:
  "(Before date statsStart \<or> After date statsEnd \<longrightarrow>
      minuteStep layout statsStart statsEnd vEnd date w = w)
   \<and> walk layout statsStart statsEnd vEnd date w
       = fold (minuteStep layout statsStart statsEnd vEnd)
           (filter (inWindow statsStart statsEnd) (minuteSteps date vEnd)) w
   \<and> walk ''January 02, 2006'' (tDate 2026 3 2 0 0 0 0) (tDate 2026 3 2 23 59 59 0)
         (tDate 2026 3 3 0 10 0 0) (tDate 2026 3 2 23 50 0 0) emptyWalk
       = \<lparr>hourly = [(23, 600)], weekday = [(1, 600)], daily = [(''March 02, 2026'', 600)],
           seconds = 1200, durationAdded = True\<rparr>
   \<and> walk ''January 02, 2006'' (tDate 2026 3 3 0 0 0 0) (tDate 2026 3 3 23 59 59 0)
         (tDate 2026 3 3 0 10 0 0) (tDate 2026 3 2 23 50 0 0) emptyWalk
       = \<lparr>hourly = [(0, 600)], weekday = [(2, 600)], daily = [(''March 03, 2026'', 600)],
           seconds = 600, durationAdded = True\<rparr>"
  using minuteStep_outside [of date statsStart statsEnd layout vEnd w]
    walk_in_window_steps [of layout statsStart statsEnd vEnd date w]
    walk_across_window_end walk_across_window_start
  by blast

theorem out_of_window_steps_skipped_witness:
  "(Before (tDate 2026 3 3 0 5 0 0) (tDate 2026 3 2 0 0 0 0)
      \<or> After (tDate 2026 3 3 0 5 0 0) (tDate 2026 3 2 23 59 59 0))
   \<and> minuteStep ''January 02, 2006'' (tDate 2026 3 2 0 0 0 0) (tDate 2026 3 2 23 59 59 0)
         (tDate 2026 3 3 0 10 0 0) (tDate 2026 3 3 0 5 0 0) emptyWalk = emptyWalk"
proof -
  have h: "Before (tDate 2026 3 3 0 5 0 0) (tDate 2026 3 2 0 0 0 0)
      \<or> After (tDate 2026 3 3 0 5 0 0) (tDate 2026 3 2 23 59 59 0)"
    by (simp add: march_instants After_def)
  with out_of_window_steps_skipped [of "tDate 2026 3 3 0 5 0 0" "tDate 2026 3 2 0 0 0 0"
      "tDate 2026 3 2 23 59 59 0" "''January 02, 2006''" "tDate 2026 3 3 0 10 0 0" emptyWalk]
  show ?thesis by blast
qed

section \<open>The total and the sum over the history\<close>

subsection \<open>Sums over association lists\<close>









subsection \<open>A walk whose minute-steps share one label\<close>












subsection \<open>One session, then all of them\<close>









subsection \<open>The two sessions of March 2026\<close>
















end
